theory Spec2Isabelle
  imports Complex_Main "HOL-Library.AList"
begin

section \<open>Retrieval layer of the RAG backend: chunker, vector store, backend\<close>

text \<open>
  A shallow embedding of \<^verbatim>\<open>rag_chunker.cpp\<close>, \<^verbatim>\<open>vector_store_usearch.cpp\<close> and
  \<^verbatim>\<open>rag_backend.cpp\<close>. Conventions:
  \<^item> \<^verbatim>\<open>std::string\<close> is \<open>string\<close> (a list of bytes), \<^verbatim>\<open>std::unordered_map\<close> is an
    association list read with \<open>map_of\<close>;
  \<^item> a similarity, a distance or a threshold is a \<open>real\<close> (rounding is not modelled); the
    components of an embedding and the floating numbers of a JSON value are of type \<open>float\<close>,
    which has the infinite values and NaN beside the finite ones, because the JSON writer
    treats them differently;
  \<^item> \<^verbatim>\<open>size_t\<close> is \<open>nat\<close> with the wrap at \<open>2 ^ 64\<close> written out: in the sizes computed
    from the chunker configuration and in the increments of the counters \<^verbatim>\<open>next_key_\<close> and
    \<^verbatim>\<open>next_chunk_id_\<close>;
  \<^item> an exception is a value: a throwing call returns \<open>Inl\<close>, or \<open>None\<close> where only the
    fact that it threw matters;
  \<^item> the mutexes are not modelled: every operation runs alone;
  \<^item> the USearch index and the embedding and generation providers are outside the
    repository, so their answers are parameters of the model.
\<close>

subsection \<open>Machine sizes, exceptions, JSON values\<close>

definition size_t_wrap :: "nat \<Rightarrow> nat" where
  "size_t_wrap n = n mod 2 ^ 64"

definition size_t_sub :: "nat \<Rightarrow> nat \<Rightarrow> nat" where
  "size_t_sub a b = (a + 2 ^ 64 - b) mod 2 ^ 64"

datatype std_exception = Std_exception string

text \<open>A \<^verbatim>\<open>float\<close> or \<^verbatim>\<open>double\<close> value: finite, infinite or NaN.\<close>

datatype float = Finite real | PosInf | NegInf | NaN

fun isfinite :: "float \<Rightarrow> bool" where
  "isfinite (Finite r) = True"
| "isfinite PosInf = False"
| "isfinite NegInf = False"
| "isfinite NaN = False"

text \<open>A vector of finite components.\<close>

definition vec :: "real list \<Rightarrow> float list" where
  "vec xs = map Finite xs"

text \<open>
  The \<^verbatim>\<open>nlohmann::json\<close> values the code builds and reads: null, unsigned numbers, floating
  numbers, strings, arrays and objects. An object is an association list from keys to values.
\<close>

datatype json =
    JNull
  | JNum nat
  | JFloat float
  | JString string
  | JArray "json list"
  | JObject "(string \<times> json) list"

text \<open>\<^verbatim>\<open>j[key] = v\<close>: null becomes an object, an object is updated, any other value throws.\<close>

fun json_set :: "json \<Rightarrow> string \<Rightarrow> json \<Rightarrow> json option" where
  "json_set JNull k v = Some (JObject [(k, v)])"
| "json_set (JObject kvs) k v = Some (JObject (AList.update k v kvs))"
| "json_set (JNum n) k v = None"
| "json_set (JFloat f) k v = None"
| "json_set (JString s) k v = None"
| "json_set (JArray xs) k v = None"

text \<open>\<^verbatim>\<open>j.at(key)\<close>: throws unless \<open>j\<close> is an object that has the key.\<close>

fun json_at :: "json \<Rightarrow> string \<Rightarrow> json option" where
  "json_at (JObject kvs) k = map_of kvs k"
| "json_at JNull k = None"
| "json_at (JNum n) k = None"
| "json_at (JFloat f) k = None"
| "json_at (JString s) k = None"
| "json_at (JArray xs) k = None"

fun json_contains :: "json \<Rightarrow> string \<Rightarrow> bool" where
  "json_contains (JObject kvs) k = (map_of kvs k \<noteq> None)"
| "json_contains JNull k = False"
| "json_contains (JNum n) k = False"
| "json_contains (JFloat f) k = False"
| "json_contains (JString s) k = False"
| "json_contains (JArray xs) k = False"

text \<open>The values a range-based \<^verbatim>\<open>for\<close> over a JSON value visits.\<close>

fun json_items :: "json \<Rightarrow> json list" where
  "json_items (JArray xs) = xs"
| "json_items (JObject kvs) = map snd kvs"
| "json_items JNull = []"
| "json_items (JNum n) = [JNum n]"
| "json_items (JFloat f) = [JFloat f]"
| "json_items (JString s) = [JString s]"

text \<open>
  \<^verbatim>\<open>get<std::size_t>()\<close>, \<^verbatim>\<open>get<std::string>()\<close>, \<^verbatim>\<open>get<float>()\<close>: a type error throws.
  The conversion of a floating number that is not finite to \<^verbatim>\<open>size_t\<close> is undefined in
  C++; it is \<open>None\<close> here, and no parsed document holds such a number.
\<close>

fun get_size_t :: "json \<Rightarrow> nat option" where
  "get_size_t (JNum n) = Some n"
| "get_size_t (JFloat f) = (case f of Finite r \<Rightarrow> Some (nat \<lfloor>r\<rfloor>) | _ \<Rightarrow> None)"
| "get_size_t JNull = None"
| "get_size_t (JString s) = None"
| "get_size_t (JArray xs) = None"
| "get_size_t (JObject kvs) = None"

fun get_string :: "json \<Rightarrow> string option" where
  "get_string (JString s) = Some s"
| "get_string JNull = None"
| "get_string (JNum n) = None"
| "get_string (JFloat f) = None"
| "get_string (JArray xs) = None"
| "get_string (JObject kvs) = None"

fun get_float :: "json \<Rightarrow> float option" where
  "get_float (JFloat f) = Some f"
| "get_float (JNum n) = Some (Finite (real n))"
| "get_float JNull = None"
| "get_float (JString s) = None"
| "get_float (JArray xs) = None"
| "get_float (JObject kvs) = None"

fun get_floats :: "json list \<Rightarrow> float list option" where
  "get_floats [] = Some []"
| "get_floats (j # js) =
     (case get_float j of
        None \<Rightarrow> None
      | Some x \<Rightarrow> (case get_floats js of None \<Rightarrow> None | Some xs \<Rightarrow> Some (x # xs)))"

fun get_float_vector :: "json \<Rightarrow> float list option" where
  "get_float_vector (JArray xs) = get_floats xs"
| "get_float_vector JNull = None"
| "get_float_vector (JNum n) = None"
| "get_float_vector (JFloat f) = None"
| "get_float_vector (JString s) = None"
| "get_float_vector (JObject kvs) = None"

subsection \<open>Writing and reading JSON text\<close>

text \<open>
  \<^verbatim>\<open>dump()\<close> writes a JSON value as text and the parser reads a text back. The text is not
  modelled, only what the two steps do to a value:
  \<^item> \<^verbatim>\<open>dump()\<close> throws \<^verbatim>\<open>type_error.316\<close> when a string of the value, a key of an object
    included, is not well-formed UTF-8 (the default error handler is the strict one);
  \<^item> a floating number that is not finite is written as \<^verbatim>\<open>null\<close>, so it is read back as
    null;
  \<^item> everything else is read back as it was written.

  Well-formed UTF-8 is what the decoder of the writer accepts: the byte sequences of the
  Unicode standard, without overlong forms, surrogates and code points above \<open>10FFFF\<close>, and
  with no sequence cut short by the end of the string.
\<close>

definition continuation_byte :: "nat \<Rightarrow> bool" where
  "continuation_byte b \<longleftrightarrow> 0x80 \<le> b \<and> b \<le> 0xBF"

fun utf8_bytes :: "nat list \<Rightarrow> bool" where
  "utf8_bytes [] = True"
| "utf8_bytes (b # bs) =
     (if b < 0x80 then utf8_bytes bs
      else if 0xC2 \<le> b \<and> b \<le> 0xDF then
        (case bs of
           b1 # rest \<Rightarrow> continuation_byte b1 \<and> utf8_bytes rest
         | _ \<Rightarrow> False)
      else if 0xE0 \<le> b \<and> b \<le> 0xEF then
        (case bs of
           b1 # b2 # rest \<Rightarrow>
             (if b = 0xE0 then 0xA0 \<le> b1 \<and> b1 \<le> 0xBF
              else if b = 0xED then 0x80 \<le> b1 \<and> b1 \<le> 0x9F
              else continuation_byte b1) \<and>
             continuation_byte b2 \<and> utf8_bytes rest
         | _ \<Rightarrow> False)
      else if 0xF0 \<le> b \<and> b \<le> 0xF4 then
        (case bs of
           b1 # b2 # b3 # rest \<Rightarrow>
             (if b = 0xF0 then 0x90 \<le> b1 \<and> b1 \<le> 0xBF
              else if b = 0xF4 then 0x80 \<le> b1 \<and> b1 \<le> 0x8F
              else continuation_byte b1) \<and>
             continuation_byte b2 \<and> continuation_byte b3 \<and> utf8_bytes rest
         | _ \<Rightarrow> False)
      else False)"

definition valid_utf8 :: "string \<Rightarrow> bool" where
  "valid_utf8 s = utf8_bytes (map of_char s)"

text \<open>\<open>dump_throws\<close>: some string or key of the value is not well-formed UTF-8.\<close>

fun dump_throws :: "json \<Rightarrow> bool" where
  "dump_throws JNull = False"
| "dump_throws (JNum n) = False"
| "dump_throws (JFloat f) = False"
| "dump_throws (JString s) = (\<not> valid_utf8 s)"
| "dump_throws (JArray xs) = (\<exists>x \<in> set xs. dump_throws x)"
| "dump_throws (JObject kvs) = (\<exists>kv \<in> set kvs. \<not> valid_utf8 (fst kv) \<or> dump_throws (snd kv))"

text \<open>\<open>reparsed\<close>: the value the parser reads from the text that \<^verbatim>\<open>dump()\<close> wrote.\<close>

fun reparsed :: "json \<Rightarrow> json" where
  "reparsed JNull = JNull"
| "reparsed (JNum n) = JNum n"
| "reparsed (JFloat f) = (if isfinite f then JFloat f else JNull)"
| "reparsed (JString s) = JString s"
| "reparsed (JArray xs) = JArray (map reparsed xs)"
| "reparsed (JObject kvs) = JObject (map (\<lambda>kv. (fst kv, reparsed (snd kv))) kvs)"

subsection \<open>Strings\<close>

text \<open>\<^verbatim>\<open>s.substr(pos, count)\<close> for \<open>pos \<le> length s\<close>, and \<^verbatim>\<open>std::isspace\<close> in the C locale.\<close>

definition substr :: "string \<Rightarrow> nat \<Rightarrow> nat \<Rightarrow> string" where
  "substr s pos count = take count (drop pos s)"

definition isspace :: "char \<Rightarrow> bool" where
  "isspace c =
     (c = CHR '' '' \<or> c = CHR 0x09 \<or> c = CHR 0x0A \<or> c = CHR 0x0B \<or> c = CHR 0x0C \<or> c = CHR 0x0D)"

text \<open>\<^verbatim>\<open>find_first_not_of\<close> and \<^verbatim>\<open>find_last_not_of\<close>; \<open>None\<close> is \<^verbatim>\<open>npos\<close>.\<close>

fun find_first_not_of :: "string \<Rightarrow> string \<Rightarrow> nat option" where
  "find_first_not_of [] cs = None"
| "find_first_not_of (c # s) cs =
     (if c \<in> set cs then map_option Suc (find_first_not_of s cs) else Some 0)"

definition find_last_not_of :: "string \<Rightarrow> string \<Rightarrow> nat option" where
  "find_last_not_of s cs =
     (case find_first_not_of (rev s) cs of
        None \<Rightarrow> None
      | Some i \<Rightarrow> Some (length s - 1 - i))"

text \<open>\<^verbatim>\<open>s.find(pat)\<close>: the first position where \<open>pat\<close> occurs; and \<^verbatim>\<open>s.replace(pos, n, r)\<close>.\<close>

fun find_str :: "string \<Rightarrow> string \<Rightarrow> nat option" where
  "find_str [] pat = (if pat = [] then Some 0 else None)"
| "find_str (c # s) pat =
     (if take (length pat) (c # s) = pat then Some 0 else map_option Suc (find_str s pat))"

definition replace_at :: "string \<Rightarrow> nat \<Rightarrow> nat \<Rightarrow> string \<Rightarrow> string" where
  "replace_at s pos n r = take pos s @ r @ drop (pos + n) s"

text \<open>\<^verbatim>\<open>std::to_string\<close> of an unsigned value.\<close>

definition digit_char :: "nat \<Rightarrow> char" where
  "digit_char d = ''0123456789'' ! d"

fun to_string :: "nat \<Rightarrow> string" where
  "to_string n = (if n < 10 then [digit_char n] else to_string (n div 10) @ [digit_char (n mod 10)])"

declare to_string.simps [simp del]

subsection \<open>DocumentChunker\<close>

record TextChunk =
  tc_text :: string
  start_position :: nat
  end_position :: nat
  chunk_index :: nat

record ChunkerConfig =
  chunk_size :: nat
  chunk_overlap :: nat
  chars_per_token :: nat

definition default_ChunkerConfig :: ChunkerConfig where
  "default_ChunkerConfig = \<lparr>chunk_size = 512, chunk_overlap = 50, chars_per_token = 4\<rparr>"

text \<open>
  \<^verbatim>\<open>estimate_tokens\<close> divides by \<^verbatim>\<open>chars_per_token\<close>. A division by zero is undefined in
  C++ (the process is stopped by a signal): \<open>None\<close>.
\<close>

definition estimate_tokens :: "ChunkerConfig \<Rightarrow> string \<Rightarrow> nat option" where
  "estimate_tokens config s =
     (if chars_per_token config = 0 then None else Some (length s div chars_per_token config))"

function boundaries_loop :: "string \<Rightarrow> nat \<Rightarrow> nat list \<Rightarrow> nat list" where
  "boundaries_loop s i boundaries =
     (if i < length s then
        let c = s ! i in
        boundaries_loop s (i + 1)
          (if (c = CHR ''.'' \<or> c = CHR ''!'' \<or> c = CHR ''?'' \<or> c = CHR 0x0A)
              \<and> i + 1 < length s \<and> isspace (s ! (i + 1))
           then boundaries @ [i + 1] else boundaries)
      else boundaries)"
  by pat_completeness auto
termination
  by (relation "measure (\<lambda>(s, i, boundaries). length s - i)") auto

declare boundaries_loop.simps [simp del]

definition find_sentence_boundaries :: "string \<Rightarrow> nat list" where
  "find_sentence_boundaries s = boundaries_loop s 0 [0] @ [length s]"

text \<open>The inner \<^verbatim>\<open>for\<close> of \<^verbatim>\<open>split_by_boundaries\<close>: the first boundary at or after the target.\<close>

fun first_boundary :: "nat list \<Rightarrow> nat \<Rightarrow> nat \<Rightarrow> nat" where
  "first_boundary [] target_end end_pos = end_pos"
| "first_boundary (boundary # rest) target_end end_pos =
     (if boundary \<ge> target_end then boundary else first_boundary rest target_end end_pos)"

definition trim_set :: string where
  "trim_set = [CHR '' '', CHR 0x09, CHR 0x0A, CHR 0x0D]"

text \<open>The trimming step: the text is cut only when both searches find a character.\<close>

definition trim_chunk_text :: "string \<Rightarrow> string" where
  "trim_chunk_text s =
     (case (find_first_not_of s trim_set, find_last_not_of s trim_set) of
        (Some first_pos, Some last_pos) \<Rightarrow> substr s first_pos (last_pos - first_pos + 1)
      | _ \<Rightarrow> s)"

text \<open>The tail merge: the rest of the text is appended to the last chunk as it is.\<close>

definition merge_tail :: "TextChunk list \<Rightarrow> string \<Rightarrow> nat \<Rightarrow> TextChunk list" where
  "merge_tail chunks s start_pos =
     butlast chunks @
       [(last chunks)\<lparr>tc_text := tc_text (last chunks) @ '' '' @ drop start_pos s,
                       end_position := length s\<rparr>]"

text \<open>
  The \<^verbatim>\<open>while\<close> loop of \<^verbatim>\<open>split_by_boundaries\<close>. Nothing in the source bounds the number of
  iterations, so the loop is a partial function: \<open>None\<close> means it never returns.
\<close>

partial_function (option) split_loop ::
  "string \<Rightarrow> nat list \<Rightarrow> nat \<Rightarrow> nat \<Rightarrow> TextChunk list \<Rightarrow> nat \<Rightarrow> nat \<Rightarrow> TextChunk list option" where
  "split_loop s boundaries chunk_size_chars overlap_chars chunks chunk_idx start_pos =
     (if start_pos < length s then
        let target_end = size_t_wrap (start_pos + chunk_size_chars);
            end_pos = first_boundary boundaries target_end (length s)
        in if size_t_sub end_pos start_pos < chunk_size_chars div 2 \<and> chunk_idx > 0 then
             Some (if chunks \<noteq> [] then merge_tail chunks s start_pos else chunks)
           else
             let chunk = \<lparr>tc_text = trim_chunk_text (substr s start_pos (size_t_sub end_pos start_pos)),
                          start_position = start_pos, end_position = end_pos,
                          chunk_index = chunk_idx\<rparr>;
                 chunks' = (if tc_text chunk \<noteq> [] then chunks @ [chunk] else chunks)
             in if end_pos \<ge> length s then Some chunks'
                else split_loop s boundaries chunk_size_chars overlap_chars chunks'
                       (size_t_wrap (chunk_idx + 1))
                       (if end_pos > overlap_chars then end_pos - overlap_chars else end_pos)
      else Some chunks)"

definition split_by_boundaries :: "ChunkerConfig \<Rightarrow> string \<Rightarrow> nat list \<Rightarrow> TextChunk list option" where
  "split_by_boundaries config s boundaries =
     split_loop s boundaries
       (size_t_wrap (chunk_size config * chars_per_token config))
       (size_t_wrap (chunk_overlap config * chars_per_token config)) [] 0 0"

definition chunk_document :: "ChunkerConfig \<Rightarrow> string \<Rightarrow> TextChunk list option" where
  "chunk_document config s =
     (if s = [] then Some [] else split_by_boundaries config s (find_sentence_boundaries s))"

subsection \<open>VectorStoreUSearch\<close>

record DocumentChunk =
  dc_id :: string
  dc_text :: string
  embedding :: "float list"
  dc_metadata :: json

record SearchResult =
  sr_id :: string
  chunk_id :: string
  sr_text :: string
  score :: real
  similarity :: real
  sr_metadata :: json

record VectorStoreConfig =
  dimension :: nat
  max_elements :: nat
  connectivity :: nat
  expansion_add :: nat
  expansion_search :: nat

definition default_VectorStoreConfig :: VectorStoreConfig where
  "default_VectorStoreConfig =
     \<lparr>dimension = 384, max_elements = 100000, connectivity = 16,
      expansion_add = 128, expansion_search = 64\<rparr>"

text \<open>
  The USearch index is a third-party library. Its content is modelled by the list of its
  members, a key with its vector; what the library answers is a parameter of the model:
  whether an insertion, a removal, a save or a load succeeds, and which matches (key and
  cosine distance) a search returns, or the exception it throws.
\<close>

type_synonym index_dense = "(nat \<times> float list) list"

record usearch =
  add_succeeds :: "index_dense \<Rightarrow> nat \<Rightarrow> float list \<Rightarrow> bool"
  remove_succeeds :: "index_dense \<Rightarrow> nat \<Rightarrow> bool"
  search_matches :: "index_dense \<Rightarrow> float list \<Rightarrow> nat \<Rightarrow> std_exception + (nat \<times> real) list"
  save_succeeds :: "index_dense \<Rightarrow> string \<Rightarrow> bool"
  load_succeeds :: "index_dense \<Rightarrow> string \<Rightarrow> bool"

text \<open>
  The state of \<^verbatim>\<open>VectorStoreUSearch::Impl\<close>. A member \<^verbatim>\<open>x_\<close> of the class is the field
  \<open>vs_x\<close> (Isabelle does not take a name that ends in an underscore).
\<close>

record VectorStoreUSearch =
  vs_config :: VectorStoreConfig
  vs_index :: index_dense
  vs_chunks :: "(nat \<times> DocumentChunk) list"
  vs_id_to_key :: "(string \<times> nat) list"
  vs_next_key :: nat

definition new_VectorStoreUSearch :: "VectorStoreConfig \<Rightarrow> VectorStoreUSearch" where
  "new_VectorStoreUSearch config =
     \<lparr>vs_config = config, vs_index = [], vs_chunks = [], vs_id_to_key = [], vs_next_key = 0\<rparr>"

text \<open>
  \<^verbatim>\<open>std::size_t key = next_key_++\<close>: the key is the counter's value, and the counter moves
  to the next value of \<^verbatim>\<open>size_t\<close>, which after \<open>2 ^ 64 - 1\<close> is zero.
\<close>

definition add_chunk :: "usearch \<Rightarrow> DocumentChunk \<Rightarrow> VectorStoreUSearch \<Rightarrow> bool \<times> VectorStoreUSearch" where
  "add_chunk L chunk st =
     (if length (embedding chunk) \<noteq> dimension (vs_config st) then (False, st)
      else if map_of (vs_id_to_key st) (dc_id chunk) \<noteq> None then (False, st)
      else
        let key = vs_next_key st;
            st1 = st\<lparr>vs_next_key := size_t_wrap (vs_next_key st + 1)\<rparr>
        in if \<not> add_succeeds L (vs_index st) key (embedding chunk) then (False, st1)
           else (True, st1\<lparr>vs_index := vs_index st @ [(key, embedding chunk)],
                            vs_chunks := AList.update key chunk (vs_chunks st),
                            vs_id_to_key := AList.update (dc_id chunk) key (vs_id_to_key st)\<rparr>))"

fun add_chunks_loop ::
  "usearch \<Rightarrow> DocumentChunk list \<Rightarrow> bool \<Rightarrow> VectorStoreUSearch \<Rightarrow> bool \<times> VectorStoreUSearch" where
  "add_chunks_loop L [] any_added st = (any_added, st)"
| "add_chunks_loop L (chunk # rest) any_added st =
     (if length (embedding chunk) \<noteq> dimension (vs_config st) then
        add_chunks_loop L rest any_added st
      else if map_of (vs_id_to_key st) (dc_id chunk) \<noteq> None then
        add_chunks_loop L rest any_added st
      else
        let key = vs_next_key st;
            st1 = st\<lparr>vs_next_key := size_t_wrap (vs_next_key st + 1)\<rparr>
        in if \<not> add_succeeds L (vs_index st) key (embedding chunk) then
             add_chunks_loop L rest any_added st1
           else
             add_chunks_loop L rest True
               (st1\<lparr>vs_index := vs_index st @ [(key, embedding chunk)],
                     vs_chunks := AList.update key chunk (vs_chunks st),
                     vs_id_to_key := AList.update (dc_id chunk) key (vs_id_to_key st)\<rparr>))"

definition add_chunks_batch ::
  "usearch \<Rightarrow> DocumentChunk list \<Rightarrow> VectorStoreUSearch \<Rightarrow> bool \<times> VectorStoreUSearch" where
  "add_chunks_batch L chunks st = add_chunks_loop L chunks False st"

text \<open>The loop of \<^verbatim>\<open>Impl::search\<close> over the matches the index returned.\<close>

fun collect_results :: "(nat \<times> DocumentChunk) list \<Rightarrow> real \<Rightarrow> (nat \<times> real) list \<Rightarrow> SearchResult list" where
  "collect_results chunks effective_threshold [] = []"
| "collect_results chunks effective_threshold ((key, distance) # matches) =
     (let sim = 1 - distance in
      if sim < effective_threshold then collect_results chunks effective_threshold matches
      else
        (case map_of chunks key of
           None \<Rightarrow> collect_results chunks effective_threshold matches
         | Some c \<Rightarrow>
             \<lparr>sr_id = dc_id c, chunk_id = dc_id c, sr_text = dc_text c, score = sim,
              similarity = sim, sr_metadata = dc_metadata c\<rparr>
             # collect_results chunks effective_threshold matches))"

definition impl_search ::
  "usearch \<Rightarrow> VectorStoreUSearch \<Rightarrow> float list \<Rightarrow> nat \<Rightarrow> real \<Rightarrow> std_exception + SearchResult list" where
  "impl_search L st query_embedding k threshold =
     (if length query_embedding \<noteq> dimension (vs_config st) then Inr []
      else if length (vs_index st) = 0 then Inr []
      else
        (case search_matches L (vs_index st) query_embedding k of
           Inl e \<Rightarrow> Inl e
         | Inr matches \<Rightarrow>
             Inr (collect_results (vs_chunks st) (min threshold (15 / 100)) matches)))"

text \<open>The public \<^verbatim>\<open>search\<close> is \<^verbatim>\<open>noexcept\<close>: an exception becomes the empty result.\<close>

definition search :: "usearch \<Rightarrow> VectorStoreUSearch \<Rightarrow> float list \<Rightarrow> nat \<Rightarrow> real \<Rightarrow> SearchResult list" where
  "search L st query_embedding k threshold =
     (case impl_search L st query_embedding k threshold of Inl e \<Rightarrow> [] | Inr results \<Rightarrow> results)"

definition remove_chunk :: "usearch \<Rightarrow> string \<Rightarrow> VectorStoreUSearch \<Rightarrow> bool \<times> VectorStoreUSearch" where
  "remove_chunk L cid st =
     (case map_of (vs_id_to_key st) cid of
        None \<Rightarrow> (False, st)
      | Some key \<Rightarrow>
          if \<not> remove_succeeds L (vs_index st) key then (False, st)
          else (True, st\<lparr>vs_index := filter (\<lambda>m. fst m \<noteq> key) (vs_index st),
                          vs_chunks := AList.delete key (vs_chunks st),
                          vs_id_to_key := AList.delete cid (vs_id_to_key st)\<rparr>))"

definition clear :: "VectorStoreUSearch \<Rightarrow> VectorStoreUSearch" where
  "clear st = st\<lparr>vs_index := [], vs_chunks := [], vs_id_to_key := [], vs_next_key := 0\<rparr>"

definition store_size :: "VectorStoreUSearch \<Rightarrow> nat" where
  "store_size st = length (vs_index st)"

text \<open>
  Files: the saved index at \<open>path\<close> and the JSON sidecar at \<open>path\<close> followed by
  \<^verbatim>\<open>.metadata.json\<close>. The content of a sidecar is the JSON value that the parser reads
  from it, or \<open>Unparsable\<close> for a text that is not a JSON document (an empty or a truncated
  file). \<open>can_create\<close> tells whether a file can be opened for writing, \<open>write_completes\<close>
  whether the text written to an open file reaches it (a full disk makes it false).
\<close>

datatype file_text = Json_text json | Unparsable

record filesystem =
  index_files :: "string \<Rightarrow> index_dense option"
  json_files :: "string \<Rightarrow> file_text option"
  can_create :: "string \<Rightarrow> bool"
  write_completes :: "string \<Rightarrow> bool"

definition chunk_to_json :: "nat \<times> DocumentChunk \<Rightarrow> json" where
  "chunk_to_json kc =
     JObject [(''key'', JNum (fst kc)),
              (''id'', JString (dc_id (snd kc))),
              (''text'', JString (dc_text (snd kc))),
              (''embedding'', JArray (map JFloat (embedding (snd kc)))),
              (''metadata'', dc_metadata (snd kc))]"

text \<open>
  \<^verbatim>\<open>save\<close> returns a boolean or lets an exception escape. The index file is written first.
  Opening the sidecar empties it; then \<^verbatim>\<open>metadata.dump()\<close> runs, outside any \<^verbatim>\<open>try\<close>, and
  its exception leaves \<^verbatim>\<open>save\<close> with the index file written and the sidecar empty (the
  message of the exception goes on to name the offending byte; only its identifier is kept
  here). The stream is not tested after the write: \<^verbatim>\<open>save\<close> returns true whether or not
  the text reached the file.
\<close>

definition type_error_316 :: std_exception where
  "type_error_316 = Std_exception ''[json.exception.type_error.316]''"

definition save ::
  "usearch \<Rightarrow> string \<Rightarrow> VectorStoreUSearch \<Rightarrow> filesystem \<Rightarrow> (std_exception + bool) \<times> filesystem" where
  "save L path st fs =
     (if \<not> save_succeeds L (vs_index st) path then (Inr False, fs)
      else
        let fs1 = fs\<lparr>index_files := (index_files fs)(path \<mapsto> vs_index st)\<rparr>;
            metadata = JObject [(''next_key'', JNum (vs_next_key st)),
                                (''chunks'', JArray (map chunk_to_json (vs_chunks st)))];
            metadata_path = path @ ''.metadata.json''
        in if \<not> can_create fs1 metadata_path then (Inr False, fs1)
           else
             let fs2 = fs1\<lparr>json_files := (json_files fs1)(metadata_path \<mapsto> Unparsable)\<rparr>
             in if dump_throws metadata then (Inl type_error_316, fs2)
                else if \<not> write_completes fs2 metadata_path then (Inr True, fs2)
                else (Inr True,
                      fs2\<lparr>json_files :=
                            (json_files fs2)(metadata_path \<mapsto> Json_text (reparsed metadata))\<rparr>))"

definition parse_chunk :: "json \<Rightarrow> (nat \<times> DocumentChunk) option" where
  "parse_chunk chunk_json =
     (case Option.bind (json_at chunk_json ''key'') get_size_t of
        None \<Rightarrow> None
      | Some key \<Rightarrow>
     (case Option.bind (json_at chunk_json ''id'') get_string of
        None \<Rightarrow> None
      | Some cid \<Rightarrow>
     (case Option.bind (json_at chunk_json ''text'') get_string of
        None \<Rightarrow> None
      | Some txt \<Rightarrow>
     (case Option.bind (json_at chunk_json ''embedding'') get_float_vector of
        None \<Rightarrow> None
      | Some emb \<Rightarrow>
     (case json_at chunk_json ''metadata'' of
        None \<Rightarrow> None
      | Some md \<Rightarrow>
          Some (key, \<lparr>dc_id = cid, dc_text = txt, embedding = emb, dc_metadata = md\<rparr>))))))"

fun load_chunks ::
  "json list \<Rightarrow> (nat \<times> DocumentChunk) list \<Rightarrow> (string \<times> nat) list \<Rightarrow>
   ((nat \<times> DocumentChunk) list \<times> (string \<times> nat) list) option" where
  "load_chunks [] new_chunks new_id_to_key = Some (new_chunks, new_id_to_key)"
| "load_chunks (chunk_json # rest) new_chunks new_id_to_key =
     (case parse_chunk chunk_json of
        None \<Rightarrow> None
      | Some (key, chunk) \<Rightarrow>
          load_chunks rest (AList.update key chunk new_chunks)
            (AList.update (dc_id chunk) key new_id_to_key))"

definition parse_metadata ::
  "json \<Rightarrow> (nat \<times> (nat \<times> DocumentChunk) list \<times> (string \<times> nat) list) option" where
  "parse_metadata metadata =
     (case json_at metadata ''chunks'' of
        None \<Rightarrow> None
      | Some chunks_json \<Rightarrow>
     (case Option.bind (json_at metadata ''next_key'') get_size_t of
        None \<Rightarrow> None
      | Some parsed_next_key \<Rightarrow>
     (case load_chunks (json_items chunks_json) [] [] of
        None \<Rightarrow> None
      | Some (new_chunks, new_id_to_key) \<Rightarrow> Some (parsed_next_key, new_chunks, new_id_to_key))))"

text \<open>
  \<^verbatim>\<open>load\<close> replaces the index first. Everything after the sidecar is opened runs inside a
  \<^verbatim>\<open>try\<close>: a text that does not parse, a missing member or a member of another type
  returns false, with the maps and the counter as they were.
\<close>

definition load :: "usearch \<Rightarrow> string \<Rightarrow> filesystem \<Rightarrow> VectorStoreUSearch \<Rightarrow> bool \<times> VectorStoreUSearch" where
  "load L path fs st =
     (case index_files fs path of
        None \<Rightarrow> (False, st)
      | Some idx \<Rightarrow>
          if \<not> load_succeeds L idx path then (False, st)
          else
            let st1 = st\<lparr>vs_index := idx\<rparr> in
            (case json_files fs (path @ ''.metadata.json'') of
               None \<Rightarrow> (False, st1)
             | Some Unparsable \<Rightarrow> (False, st1)
             | Some (Json_text metadata) \<Rightarrow>
                 (case parse_metadata metadata of
                    None \<Rightarrow> (False, st1)
                  | Some (parsed_next_key, new_chunks, new_id_to_key) \<Rightarrow>
                      (True, st1\<lparr>vs_next_key := parsed_next_key, vs_chunks := new_chunks,
                                  vs_id_to_key := new_id_to_key\<rparr>))))"

subsection \<open>Providers\<close>

record IEmbeddingProvider =
  embed :: "string \<Rightarrow> std_exception + float list"
  ep_dimension :: nat
  ep_is_ready :: bool
  ep_name :: string

record GenerationOptions =
  max_tokens :: int
  temperature :: real
  top_p :: real
  opt_top_k :: int
  use_sampling :: bool
  stop_sequences :: "string list"

record GenerationResult =
  gr_text :: string
  tokens_generated :: int
  prompt_tokens :: int
  inference_time_ms :: real
  finished :: bool
  stop_reason :: string
  gr_metadata :: json
  success :: bool

definition default_GenerationResult :: GenerationResult where
  "default_GenerationResult =
     \<lparr>gr_text = [], tokens_generated = 0, prompt_tokens = 0, inference_time_ms = 0,
      finished = False, stop_reason = [], gr_metadata = JNull, success = True\<rparr>"

record ITextGenerator =
  generate :: "string \<Rightarrow> GenerationOptions \<Rightarrow> std_exception + GenerationResult"
  tg_is_ready :: bool
  tg_name :: string
  context_size :: int

fun what :: "std_exception \<Rightarrow> string" where
  "what (Std_exception msg) = msg"

text \<open>The exception of \<^verbatim>\<open>j[key] = v\<close> on a value that is neither null nor an object.\<close>

definition json_type_error :: std_exception where
  "json_type_error = Std_exception ''json.exception.type_error''"

subsection \<open>RAGBackend\<close>

record RAGBackendConfig =
  embedding_dimension :: nat
  top_k :: nat
  similarity_threshold :: real
  max_context_tokens :: nat
  rag_chunk_size :: nat
  rag_chunk_overlap :: nat
  prompt_template :: string

definition default_RAGBackendConfig :: RAGBackendConfig where
  "default_RAGBackendConfig =
     \<lparr>embedding_dimension = 384, top_k = 3, similarity_threshold = 7 / 10,
      max_context_tokens = 2048, rag_chunk_size = 512, rag_chunk_overlap = 50,
      prompt_template =
        ''Context:'' @ [CHR 0x0A] @ ''{context}'' @ [CHR 0x0A, CHR 0x0A] @
        ''Question: {query}'' @ [CHR 0x0A, CHR 0x0A] @ ''Answer:''\<rparr>"

text \<open>
  The state of \<^verbatim>\<open>RAGBackend\<close>: a member \<^verbatim>\<open>x_\<close> is the field \<open>rb_x\<close>. A null provider
  pointer is \<open>None\<close>. The chunker is its configuration.
\<close>

record RAGBackend =
  rb_config :: RAGBackendConfig
  rb_vector_store :: VectorStoreUSearch
  rb_chunker :: ChunkerConfig
  rb_embedding_provider :: "IEmbeddingProvider option"
  rb_text_generator :: "ITextGenerator option"
  rb_initialized :: bool
  rb_next_chunk_id :: nat

definition new_RAGBackend ::
  "RAGBackendConfig \<Rightarrow> IEmbeddingProvider option \<Rightarrow> ITextGenerator option \<Rightarrow> RAGBackend" where
  "new_RAGBackend config provider generator =
     \<lparr>rb_config = config,
      rb_vector_store =
        new_VectorStoreUSearch (default_VectorStoreConfig\<lparr>dimension := embedding_dimension config\<rparr>),
      rb_chunker =
        default_ChunkerConfig\<lparr>chunk_size := rag_chunk_size config,
                               chunk_overlap := rag_chunk_overlap config\<rparr>,
      rb_embedding_provider = provider,
      rb_text_generator = generator,
      rb_initialized = True,
      rb_next_chunk_id = 0\<rparr>"

definition set_embedding_provider :: "IEmbeddingProvider option \<Rightarrow> RAGBackend \<Rightarrow> RAGBackend" where
  "set_embedding_provider provider b =
     (let b1 = b\<lparr>rb_embedding_provider := provider\<rparr> in
      case rb_embedding_provider b1 of
        None \<Rightarrow> b1
      | Some p \<Rightarrow>
          if ep_is_ready p
          then b1\<lparr>rb_config := (rb_config b1)\<lparr>embedding_dimension := ep_dimension p\<rparr>\<rparr>
          else b1)"

definition set_text_generator :: "ITextGenerator option \<Rightarrow> RAGBackend \<Rightarrow> RAGBackend" where
  "set_text_generator generator b = b\<lparr>rb_text_generator := generator\<rparr>"

text \<open>
  The loop of \<^verbatim>\<open>add_document\<close> over the chunks. The \<^verbatim>\<open>try\<close> block is inside the loop:
  an exception of \<^verbatim>\<open>embed\<close> or of the assignment to \<^verbatim>\<open>chunk.metadata["source_text"]\<close>
  returns false, and so does a failed \<^verbatim>\<open>add_chunk\<close>.
\<close>

fun add_document_loop ::
  "usearch \<Rightarrow> IEmbeddingProvider \<Rightarrow> string \<Rightarrow> json \<Rightarrow> TextChunk list \<Rightarrow> RAGBackend \<Rightarrow>
   bool \<times> RAGBackend" where
  "add_document_loop L p s metadata [] b = (True, b)"
| "add_document_loop L p s metadata (chunk_obj # rest) b =
     (case embed p (tc_text chunk_obj) of
        Inl e \<Rightarrow> (False, b)
      | Inr emb \<Rightarrow>
          if length emb \<noteq> embedding_dimension (rb_config b) then
            add_document_loop L p s metadata rest b
          else
            let cid = ''chunk_'' @ to_string (rb_next_chunk_id b);
                b1 = b\<lparr>rb_next_chunk_id := size_t_wrap (rb_next_chunk_id b + 1)\<rparr>
            in (case json_set metadata ''source_text'' (JString (substr s 0 100)) of
                  None \<Rightarrow> (False, b1)
                | Some md \<Rightarrow>
                    let chunk = \<lparr>dc_id = cid, dc_text = tc_text chunk_obj, embedding = emb,
                                 dc_metadata = md\<rparr>;
                        added = add_chunk L chunk (rb_vector_store b1);
                        b2 = b1\<lparr>rb_vector_store := snd added\<rparr>
                    in if \<not> fst added then (False, b2)
                       else add_document_loop L p s metadata rest b2))"

text \<open>\<open>None\<close>: the chunker never returns, and neither does \<^verbatim>\<open>add_document\<close>.\<close>

definition add_document ::
  "usearch \<Rightarrow> string \<Rightarrow> json \<Rightarrow> RAGBackend \<Rightarrow> (bool \<times> RAGBackend) option" where
  "add_document L s metadata b =
     (if \<not> rb_initialized b then Some (False, b)
      else
        (case rb_embedding_provider b of
           None \<Rightarrow> Some (False, b)
         | Some p \<Rightarrow>
             if \<not> ep_is_ready p then Some (False, b)
             else
               (case chunk_document (rb_chunker b) s of
                  None \<Rightarrow> None
                | Some chunks \<Rightarrow> Some (add_document_loop L p s metadata chunks b))))"

definition search_with_provider ::
  "usearch \<Rightarrow> RAGBackend \<Rightarrow> string \<Rightarrow> nat \<Rightarrow> IEmbeddingProvider option \<Rightarrow> nat \<Rightarrow> real \<Rightarrow> bool \<Rightarrow>
   SearchResult list" where
  "search_with_provider L b query_text k provider embedding_dim threshold initialized =
     (if \<not> initialized then []
      else
        (case provider of
           None \<Rightarrow> []
         | Some p \<Rightarrow>
             if \<not> ep_is_ready p then []
             else
               (case embed p query_text of
                  Inl e \<Rightarrow> []
                | Inr query_embedding \<Rightarrow>
                    if length query_embedding \<noteq> embedding_dim then []
                    else search L (rb_vector_store b) query_embedding k threshold)))"

definition rag_search :: "usearch \<Rightarrow> RAGBackend \<Rightarrow> string \<Rightarrow> nat \<Rightarrow> SearchResult list" where
  "rag_search L b query_text k =
     search_with_provider L b query_text k (rb_embedding_provider b)
       (embedding_dimension (rb_config b)) (similarity_threshold (rb_config b))
       (rb_initialized b)"

fun build_context :: "SearchResult list \<Rightarrow> string" where
  "build_context [] = []"
| "build_context [r] = sr_text r"
| "build_context (r # r' # rs) = sr_text r @ [CHR 0x0A, CHR 0x0A] @ build_context (r' # rs)"

definition fill_placeholder :: "string \<Rightarrow> string \<Rightarrow> string \<Rightarrow> string" where
  "fill_placeholder prompt placeholder r =
     (case find_str prompt placeholder of
        None \<Rightarrow> prompt
      | Some pos \<Rightarrow> replace_at prompt pos (length placeholder) r)"

definition format_prompt :: "RAGBackend \<Rightarrow> string \<Rightarrow> string \<Rightarrow> string" where
  "format_prompt b q context =
     fill_placeholder (fill_placeholder (prompt_template (rb_config b)) ''{context}'' context)
       ''{query}'' q"

definition error_result :: "string \<Rightarrow> GenerationResult" where
  "error_result msg = default_GenerationResult\<lparr>gr_text := msg, success := False\<rparr>"

definition source_json :: "SearchResult \<Rightarrow> json" where
  "source_json res =
     JObject ([(''id'', JString (sr_id res)), (''score'', JFloat (Finite (score res)))] @
              (case json_at (sr_metadata res) ''source_text'' of
                 None \<Rightarrow> []
               | Some v \<Rightarrow> [(''source'', v)]))"

text \<open>The three assignments to \<^verbatim>\<open>result.metadata\<close> after a successful generation.\<close>

definition add_search_metadata :: "SearchResult list \<Rightarrow> string \<Rightarrow> json \<Rightarrow> json option" where
  "add_search_metadata search_results context md =
     Option.bind (json_set md ''num_chunks'' (JNum (length search_results))) (\<lambda>md1.
     Option.bind (json_set md1 ''context_length'' (JNum (length context))) (\<lambda>md2.
     json_set md2 ''sources'' (JArray (map source_json search_results))))"

definition no_context_text :: string where
  "no_context_text =
     ''I don'' @ [CHR 0x27] @ ''t have enough information to answer that question.''"

definition query :: "usearch \<Rightarrow> RAGBackend \<Rightarrow> string \<Rightarrow> GenerationOptions \<Rightarrow> GenerationResult" where
  "query L b q options =
     (case rb_embedding_provider b of
        None \<Rightarrow> error_result ''Error: Embedding provider not available''
      | Some ep \<Rightarrow>
          if \<not> ep_is_ready ep then error_result ''Error: Embedding provider not available''
          else
            (case rb_text_generator b of
               None \<Rightarrow> error_result ''Error: Text generator not available''
             | Some tg \<Rightarrow>
                 if \<not> tg_is_ready tg then error_result ''Error: Text generator not available''
                 else
                   let search_results =
                         search_with_provider L b q (top_k (rb_config b)) (Some ep)
                           (embedding_dimension (rb_config b))
                           (similarity_threshold (rb_config b)) (rb_initialized b)
                   in if search_results = [] then
                        (case json_set (gr_metadata default_GenerationResult) ''reason''
                                (JString ''no_context'') of
                           None \<Rightarrow> error_result (''Error: '' @ what json_type_error)
                         | Some md \<Rightarrow>
                             default_GenerationResult
                               \<lparr>gr_text := no_context_text, success := True, gr_metadata := md\<rparr>)
                      else
                        let context = build_context search_results;
                            prompt =
                              fill_placeholder
                                (fill_placeholder (prompt_template (rb_config b)) ''{context}'' context)
                                ''{query}'' q
                        in (case generate tg prompt options of
                              Inl e \<Rightarrow> error_result (''Error: '' @ what e)
                            | Inr result \<Rightarrow>
                                if success result then
                                  (case add_search_metadata search_results context
                                          (gr_metadata result) of
                                     None \<Rightarrow> error_result (''Error: '' @ what json_type_error)
                                   | Some md \<Rightarrow> result\<lparr>gr_metadata := md\<rparr>)
                                else result)))"

definition rag_clear :: "RAGBackend \<Rightarrow> RAGBackend" where
  "rag_clear b = b\<lparr>rb_vector_store := clear (rb_vector_store b), rb_next_chunk_id := 0\<rparr>"

definition document_count :: "RAGBackend \<Rightarrow> nat" where
  "document_count b = store_size (rb_vector_store b)"

section \<open>Vocabulary of the properties\<close>

text \<open>
  Sequences of store operations. \<open>run_ops\<close> applies them in order; the result of each
  operation is dropped, its effect on the store is kept.
\<close>

datatype store_op =
    Add_chunk DocumentChunk
  | Add_chunks_batch "DocumentChunk list"
  | Remove_chunk string
  | Clear

fun apply_op :: "usearch \<Rightarrow> VectorStoreUSearch \<Rightarrow> store_op \<Rightarrow> VectorStoreUSearch" where
  "apply_op L st (Add_chunk c) = snd (add_chunk L c st)"
| "apply_op L st (Add_chunks_batch cs) = snd (add_chunks_batch L cs st)"
| "apply_op L st (Remove_chunk cid) = snd (remove_chunk L cid st)"
| "apply_op L st Clear = clear st"

definition run_ops :: "usearch \<Rightarrow> store_op list \<Rightarrow> VectorStoreUSearch \<Rightarrow> VectorStoreUSearch" where
  "run_ops L ops st = foldl (apply_op L) st ops"





text \<open>The internal keys that hold a chunk.\<close>

definition live_keys :: "VectorStoreUSearch \<Rightarrow> nat set" where
  "live_keys st = fst ` set (vs_chunks st)"

text \<open>
  The identity invariant of the store: each map has one entry per key, every live key is
  below the counter, and \<^verbatim>\<open>id_to_key_\<close> sends an id to a key exactly when the chunk stored
  under that key carries the id.
\<close>

definition keys_consistent :: "VectorStoreUSearch \<Rightarrow> bool" where
  "keys_consistent st \<longleftrightarrow>
     distinct (map fst (vs_chunks st)) \<and>
     distinct (map fst (vs_id_to_key st)) \<and>
     (\<forall>k \<in> live_keys st. k < vs_next_key st) \<and>
     (\<forall>i k. map_of (vs_id_to_key st) i = Some k \<longleftrightarrow>
            (\<exists>c. map_of (vs_chunks st) k = Some c \<and> dc_id c = i))"



text \<open>The dimension invariant: every stored embedding has the configured length.\<close>

definition dims_ok :: "VectorStoreUSearch \<Rightarrow> bool" where
  "dims_ok st \<longleftrightarrow>
     (\<forall>kc \<in> set (vs_chunks st). length (embedding (snd kc)) = dimension (vs_config st))"

text \<open>
  What can happen to one chunk inside the loop of \<^verbatim>\<open>add_document\<close> in backend state \<open>b\<close>:
  it is skipped (its embedding has the wrong length), or it fails (the embedding call
  throws, the assignment of \<^verbatim>\<open>source_text\<close> throws, or the store rejects the insertion).
\<close>

definition chunk_skipped :: "IEmbeddingProvider \<Rightarrow> RAGBackend \<Rightarrow> TextChunk \<Rightarrow> bool" where
  "chunk_skipped p b c =
     (case embed p (tc_text c) of
        Inl e \<Rightarrow> False
      | Inr emb \<Rightarrow> length emb \<noteq> embedding_dimension (rb_config b))"

definition chunk_fails ::
  "usearch \<Rightarrow> IEmbeddingProvider \<Rightarrow> string \<Rightarrow> json \<Rightarrow> TextChunk \<Rightarrow> RAGBackend \<Rightarrow> bool" where
  "chunk_fails L p s metadata c b =
     (case embed p (tc_text c) of
        Inl e \<Rightarrow> True
      | Inr emb \<Rightarrow>
          length emb = embedding_dimension (rb_config b) \<and>
          (case json_set metadata ''source_text'' (JString (substr s 0 100)) of
             None \<Rightarrow> True
           | Some md \<Rightarrow>
               \<not> fst (add_chunk L
                        \<lparr>dc_id = ''chunk_'' @ to_string (rb_next_chunk_id b), dc_text = tc_text c,
                          embedding = emb, dc_metadata = md\<rparr>
                        (rb_vector_store b))))"

section \<open>Concrete inputs\<close>

text \<open>A chunker whose overlap is as long as its chunks: one token of four characters each.\<close>

definition overlap_config :: ChunkerConfig where
  "overlap_config = \<lparr>chunk_size = 1, chunk_overlap = 1, chars_per_token = 4\<rparr>"

text \<open>
  A library that accepts every call; a search returns the first \<open>k\<close> members, each at
  cosine distance \<open>0.8\<close>, that is at similarity \<open>0.2\<close>.
\<close>

definition lib_w :: usearch where
  "lib_w =
     \<lparr>add_succeeds = (\<lambda>idx key v. True),
      remove_succeeds = (\<lambda>idx key. True),
      search_matches = (\<lambda>idx q k. Inr (map (\<lambda>m. (fst m, 4 / 5)) (take k idx))),
      save_succeeds = (\<lambda>idx path. True),
      load_succeeds = (\<lambda>idx path. True)\<rparr>"

definition config3 :: VectorStoreConfig where
  "config3 = default_VectorStoreConfig\<lparr>dimension := 3\<rparr>"

definition config2 :: VectorStoreConfig where
  "config2 = default_VectorStoreConfig\<lparr>dimension := 2\<rparr>"

definition chunk_a :: DocumentChunk where
  "chunk_a = \<lparr>dc_id = ''a'', dc_text = ''alpha'', embedding = vec [1, 0, 0], dc_metadata = JNull\<rparr>"

definition chunk_b :: DocumentChunk where
  "chunk_b = \<lparr>dc_id = ''b'', dc_text = ''beta'', embedding = vec [0, 1, 0], dc_metadata = JNull\<rparr>"


definition chunk_short :: DocumentChunk where
  "chunk_short = \<lparr>dc_id = ''s'', dc_text = ''short'', embedding = vec [1, 0], dc_metadata = JNull\<rparr>"

definition store_a :: VectorStoreUSearch where
  "store_a = snd (add_chunk lib_w chunk_a (new_VectorStoreUSearch config3))"

definition store_ab :: VectorStoreUSearch where
  "store_ab = run_ops lib_w [Add_chunk chunk_a, Add_chunk chunk_b] (new_VectorStoreUSearch config3)"


definition store_short :: VectorStoreUSearch where
  "store_short = snd (add_chunk lib_w chunk_short (new_VectorStoreUSearch config2))"

definition fs_empty :: filesystem where
  "fs_empty = \<lparr>index_files = (\<lambda>path. None), json_files = (\<lambda>path. None),
                can_create = (\<lambda>path. True), write_completes = (\<lambda>path. True)\<rparr>"





text \<open>
  A chunk whose text is the first byte of a two-byte UTF-8 character, as a cut at a byte
  offset leaves it, and a chunk whose embedding has a NaN component.
\<close>

definition chunk_cut :: DocumentChunk where
  "chunk_cut = \<lparr>dc_id = ''u'', dc_text = [CHR 0xC3], embedding = vec [1, 0, 0], dc_metadata = JNull\<rparr>"

definition chunk_nan :: DocumentChunk where
  "chunk_nan = \<lparr>dc_id = ''n'', dc_text = ''nu'', embedding = [NaN, Finite 0, Finite 0],
                 dc_metadata = JNull\<rparr>"

definition store_cut :: VectorStoreUSearch where
  "store_cut = snd (add_chunk lib_w chunk_cut (new_VectorStoreUSearch config3))"

definition store_nan :: VectorStoreUSearch where
  "store_nan = snd (add_chunk lib_w chunk_nan (new_VectorStoreUSearch config3))"

text \<open>A disk that is full: a file can be created, and what is written to it is lost.\<close>

definition fs_full :: filesystem where
  "fs_full = fs_empty\<lparr>write_completes := (\<lambda>path. False)\<rparr>"

text \<open>The files that a store of dimension 2 saved.\<close>

definition fs_short :: filesystem where
  "fs_short = snd (save lib_w ''store.idx'' store_short fs_empty)"

text \<open>Providers and backends.\<close>

definition provider3 :: IEmbeddingProvider where
  "provider3 = \<lparr>embed = (\<lambda>s. Inr (vec [1, 0, 0])), ep_dimension = 3, ep_is_ready = True, ep_name = ''mock''\<rparr>"

definition provider768 :: IEmbeddingProvider where
  "provider768 = \<lparr>embed = (\<lambda>s. Inr (vec (replicate 768 0))), ep_dimension = 768, ep_is_ready = True,
                   ep_name = ''mock768''\<rparr>"

definition generator_w :: ITextGenerator where
  "generator_w = \<lparr>generate = (\<lambda>prompt options. Inr (default_GenerationResult\<lparr>gr_text := ''answer''\<rparr>)),
                   tg_is_ready = True, tg_name = ''mockgen'', context_size = 2048\<rparr>"

definition options_w :: GenerationOptions where
  "options_w = \<lparr>max_tokens = 1024, temperature = 7 / 10, top_p = 9 / 10, opt_top_k = 40,
                 use_sampling = True, stop_sequences = []\<rparr>"

definition backend_default :: RAGBackend where
  "backend_default = new_RAGBackend default_RAGBackendConfig None None"

definition backend_w :: RAGBackend where
  "backend_w =
     new_RAGBackend (default_RAGBackendConfig\<lparr>embedding_dimension := 3\<rparr>)
       (Some provider3) (Some generator_w)"

definition doc_w :: string where
  "doc_w = ''Aaaa bbb. Cccc ddd. Eeee fff.''"

definition config_small :: RAGBackendConfig where
  "config_small =
     default_RAGBackendConfig\<lparr>embedding_dimension := 3, rag_chunk_size := 2, rag_chunk_overlap := 0\<rparr>"

definition piece0 :: TextChunk where
  "piece0 = \<lparr>tc_text = ''Aaaa bbb.'', start_position = 0, end_position = 9, chunk_index = 0\<rparr>"

definition piece1 :: TextChunk where
  "piece1 = \<lparr>tc_text = ''Cccc ddd.'', start_position = 9, end_position = 19, chunk_index = 1\<rparr>"

definition piece2 :: TextChunk where
  "piece2 = \<lparr>tc_text = ''Eeee fff.'', start_position = 19, end_position = 29, chunk_index = 2\<rparr>"

text \<open>An embedding provider that is ready and throws on every text.\<close>

definition provider_throwing :: IEmbeddingProvider where
  "provider_throwing =
     \<lparr>embed = (\<lambda>s. Inl (Std_exception ''inference failed'')), ep_dimension = 3,
      ep_is_ready = True, ep_name = ''throwing''\<rparr>"

definition backend_throwing :: RAGBackend where
  "backend_throwing = new_RAGBackend config_small (Some provider_throwing) None"

text \<open>An embedding provider that embeds the first chunk of \<open>doc_w\<close> and throws on the others.\<close>

definition provider_partial :: IEmbeddingProvider where
  "provider_partial =
     \<lparr>embed = (\<lambda>s. if s = ''Aaaa bbb.'' then Inr (vec [1, 0, 0])
                    else Inl (Std_exception ''inference failed'')),
      ep_dimension = 3, ep_is_ready = True, ep_name = ''partial''\<rparr>"

definition backend_partial :: RAGBackend where
  "backend_partial = new_RAGBackend config_small (Some provider_partial) None"

text \<open>An embedding provider that returns a vector of the wrong length for the second chunk.\<close>

definition provider_mixed :: IEmbeddingProvider where
  "provider_mixed =
     \<lparr>embed = (\<lambda>s. if s = ''Cccc ddd.'' then Inr (vec [1, 0]) else Inr (vec [1, 0, 0])),
      ep_dimension = 3, ep_is_ready = True, ep_name = ''mixed''\<rparr>"

definition backend_mixed :: RAGBackend where
  "backend_mixed = new_RAGBackend config_small (Some provider_mixed) None"

section \<open>The chunker\<close>

lemmas chunker_eval = chunk_document_def split_by_boundaries_def default_ChunkerConfig_def
  find_sentence_boundaries_def boundaries_loop.simps isspace_def split_loop.simps size_t_wrap_def
  size_t_sub_def trim_chunk_text_def find_last_not_of_def trim_set_def substr_def merge_tail_def

text \<open>
  Claim C7: every emitted chunk has a non-empty text without leading or trailing whitespace
  (a chunk that is empty after trimming is dropped), and the chunk indices are \<open>0..n-1\<close>.

  The code does not do this. The trimming step cuts the text only when
  \<^verbatim>\<open>find_first_not_of\<close> finds a character; a text of whitespace only is left as it is, is
  not empty, and is emitted. With the default configuration the document of one space yields
  one chunk whose text is that space.
\<close>

theorem whitespace_only_chunk_emitted:
  "chunk_document default_ChunkerConfig '' '' =
     Some [\<lparr>tc_text = '' '', start_position = 0, end_position = 1, chunk_index = 0\<rparr>]"
  by (simp add: chunker_eval)

text \<open>
  The tail merge is a second path that emits untrimmed text: the short rest of the document
  is appended to the previous chunk with the whitespace it ends in.
\<close>

lemma merged_tail_keeps_trailing_space:
  "chunk_document \<lparr>chunk_size = 2, chunk_overlap = 0, chars_per_token = 4\<rparr> ''Aaaa bbb. C '' =
     Some [\<lparr>tc_text = ''Aaaa bbb.  C '', start_position = 0, end_position = 12, chunk_index = 0\<rparr>]"
  by (simp add: chunker_eval)

text \<open>
  Non-termination. With an overlap of four characters and chunks of four characters, the
  second iteration starts at position 1, ends at the boundary 5, and sets the next start to
  \<open>5 - 4 = 1\<close> again: every later iteration is the same, and each appends a chunk.
\<close>

lemma boundaries_abcd: "find_sentence_boundaries ''abcd. efgh. ijkl'' = [0, 5, 11, 16]"
  by (simp add: find_sentence_boundaries_def boundaries_loop.simps isspace_def)

lemma split_loop_stuck:
  assumes "split_loop s boundaries csc oc chunks idx start_pos = Some y"
  shows "\<not> (s = ''abcd. efgh. ijkl'' \<and> boundaries = [0, 5, 11, 16] \<and> csc = 4 \<and> oc = 4 \<and> start_pos = 1)"
  apply (rule split_loop.raw_induct
    [where P = "\<lambda>s boundaries csc oc chunks idx start_pos y.
       \<not> (s = ''abcd. efgh. ijkl'' \<and> boundaries = [0, 5, 11, 16] \<and> csc = 4 \<and> oc = 4 \<and> start_pos = 1)",
     OF _ assms])
  apply (rule notI)
  apply (auto simp add: size_t_wrap_def size_t_sub_def Let_def split: if_splits)
   apply blast
  apply blast
  done

text \<open>
  Claim C9: for every text and every chunker configuration, \<^verbatim>\<open>chunk_document\<close> terminates
  and returns a finite sequence of chunks.

  The code does not: with \<^verbatim>\<open>chunk_size = 1\<close>, \<^verbatim>\<open>chunk_overlap = 1\<close> and four characters
  per token, the call on a text of three short sentences never returns.
\<close>

theorem chunk_document_diverges:
  "chunk_document overlap_config ''abcd. efgh. ijkl'' = None"
proof (cases "chunk_document overlap_config ''abcd. efgh. ijkl''")
  case None
  then show ?thesis .
next
  case (Some y)
  then have "\<exists>cs' i'. split_loop ''abcd. efgh. ijkl'' [0, 5, 11, 16] 4 4 cs' i' 1 = Some y"
    unfolding chunk_document_def split_by_boundaries_def boundaries_abcd overlap_config_def
    by (subst (asm) split_loop.simps)
       (auto simp add: size_t_wrap_def size_t_sub_def Let_def split: if_splits)
  then show ?thesis using split_loop_stuck by blast
qed

text \<open>
  A chunk length of zero characters (a zero \<^verbatim>\<open>chunk_size\<close> or \<^verbatim>\<open>chars_per_token\<close>, or a
  product that wraps to zero) loops on every non-empty text: the chunk from 0 to 0 is empty,
  is dropped, and the next start is 0 again.
\<close>

lemma split_loop_zero_size:
  assumes "split_loop s boundaries csc oc chunks idx start_pos = Some y"
  shows "\<not> (s \<noteq> [] \<and> (\<exists>bs. boundaries = 0 # bs) \<and> csc = 0 \<and> start_pos = 0)"
  apply (rule split_loop.raw_induct
    [where P = "\<lambda>s boundaries csc oc chunks idx start_pos y.
       \<not> (s \<noteq> [] \<and> (\<exists>bs. boundaries = 0 # bs) \<and> csc = 0 \<and> start_pos = 0)",
     OF _ assms])
  apply (rule notI)
  apply (auto simp add: size_t_wrap_def size_t_sub_def Let_def trim_chunk_text_def substr_def find_last_not_of_def split: if_splits)
  apply blast
  done

lemma boundaries_loop_hd: "bs \<noteq> [] \<Longrightarrow> \<exists>r. boundaries_loop s i bs = hd bs # r"
proof (induction s i bs rule: boundaries_loop.induct)
  case (1 s i boundaries)
  show ?case
  proof (cases "i < length s")
    case True
    then show ?thesis using 1 by (subst boundaries_loop.simps) (auto simp: Let_def)
  next
    case False
    then show ?thesis using 1(2) by (subst boundaries_loop.simps) (cases boundaries; simp)
  qed
qed

lemma zero_size_diverges:
  "size_t_wrap (chunk_size config * chars_per_token config) = 0 \<Longrightarrow> s \<noteq> [] \<Longrightarrow>
   chunk_document config s = None"
proof (cases "chunk_document config s")
  case None
  then show ?thesis .
next
  case (Some y)
  assume a: "size_t_wrap (chunk_size config * chars_per_token config) = 0" "s \<noteq> []"
  obtain r where "boundaries_loop s 0 [0] = 0 # r"
    using boundaries_loop_hd[of "[0]" s 0] by auto
  with Some a show ?thesis
    using split_loop_zero_size[of s "0 # r @ [length s]" 0 _ "[]" 0 0 y]
    by (simp add: chunk_document_def split_by_boundaries_def find_sentence_boundaries_def)
qed

text \<open>
  Where the loop does end: when the chunk length in characters is larger than the overlap
  length and no \<^verbatim>\<open>size_t\<close> computation wraps, every iteration moves the start forward, and
  \<^verbatim>\<open>chunk_document\<close> returns.
\<close>

lemma first_boundary_ge:
  "first_boundary bs t d = d \<or> t \<le> first_boundary bs t d"
  by (induction bs) auto

lemma split_loop_terminates:
  assumes "oc < csc" and "length s + csc < 2 ^ 64"
  shows "\<exists>y. split_loop s bs csc oc chunks idx start_pos = Some y"
proof (induction "length s - start_pos" arbitrary: chunks idx start_pos rule: less_induct)
  case less
  show ?case
  proof (cases "start_pos < length s")
    case False
    then show ?thesis by (subst split_loop.simps) simp
  next
    case True
    define e where "e = first_boundary bs (start_pos + csc) (length s)"
    have w: "size_t_wrap (start_pos + csc) = start_pos + csc"
      using True assms(2) by (simp add: size_t_wrap_def)
    show ?thesis
    proof (cases "e \<ge> length s")
      case True
      then show ?thesis
        by (subst split_loop.simps) (simp add: Let_def w e_def[symmetric])
    next
      case False
      with first_boundary_ge[of bs "start_pos + csc" "length s"]
      have ge: "start_pos + csc \<le> e" by (simp add: e_def)
      define nxt where "nxt = (if e > oc then e - oc else e)"
      have "start_pos < nxt" using ge assms(1) by (auto simp: nxt_def)
      then have "length s - nxt < length s - start_pos" using True by simp
      from less[OF this] have rec: "\<exists>y. split_loop s bs csc oc c i nxt = Some y" for c i
        by blast
      have rec1: "oc < e \<Longrightarrow> \<exists>y. split_loop s bs csc oc c i (e - oc) = Some y" for c i
        using rec[of c i] by (simp add: nxt_def)
      have rec2: "\<not> oc < e \<Longrightarrow> \<exists>y. split_loop s bs csc oc c i e = Some y" for c i
        using rec[of c i] by (simp add: nxt_def)
      show ?thesis
        by (subst split_loop.simps) (simp add: Let_def w e_def[symmetric] rec1 rec2)
    qed
  qed
qed

theorem chunk_document_terminates:
  "chunk_overlap config * chars_per_token config < chunk_size config * chars_per_token config \<and>
   length s + chunk_size config * chars_per_token config < 2 ^ 64 \<longrightarrow>
   (\<exists>chunks. chunk_document config s = Some chunks)"
proof
  assume a: "chunk_overlap config * chars_per_token config < chunk_size config * chars_per_token config \<and>
   length s + chunk_size config * chars_per_token config < 2 ^ 64"
  then have b: "chunk_size config * chars_per_token config < 2 ^ 64"
    "chunk_overlap config * chars_per_token config < 2 ^ 64"
    by linarith+
  have w: "size_t_wrap (chunk_size config * chars_per_token config) = chunk_size config * chars_per_token config"
    "size_t_wrap (chunk_overlap config * chars_per_token config) = chunk_overlap config * chars_per_token config"
    unfolding size_t_wrap_def using b by (simp_all only: mod_less)
  show "\<exists>chunks. chunk_document config s = Some chunks"
    using a split_loop_terminates[of "chunk_overlap config * chars_per_token config"
        "chunk_size config * chars_per_token config" s]
    by (simp add: chunk_document_def split_by_boundaries_def w)
qed

theorem chunk_document_terminates_witness:
  "chunk_overlap default_ChunkerConfig * chars_per_token default_ChunkerConfig
     < chunk_size default_ChunkerConfig * chars_per_token default_ChunkerConfig \<and>
   length ''Hello world.'' + chunk_size default_ChunkerConfig * chars_per_token default_ChunkerConfig
     < 2 ^ 64 \<and>
   chunk_document default_ChunkerConfig ''Hello world.'' =
     Some [\<lparr>tc_text = ''Hello world.'', start_position = 0, end_position = 12, chunk_index = 0\<rparr>]"
proof -
  have h: "chunk_overlap default_ChunkerConfig * chars_per_token default_ChunkerConfig
     < chunk_size default_ChunkerConfig * chars_per_token default_ChunkerConfig \<and>
   length ''Hello world.'' + chunk_size default_ChunkerConfig * chars_per_token default_ChunkerConfig
     < 2 ^ 64"
    by (simp add: default_ChunkerConfig_def)
  from chunk_document_terminates[of default_ChunkerConfig "''Hello world.''"] h
  obtain chunks where "chunk_document default_ChunkerConfig ''Hello world.'' = Some chunks"
    by blast
  have e: "chunk_document default_ChunkerConfig ''Hello world.'' =
     Some [\<lparr>tc_text = ''Hello world.'', start_position = 0, end_position = 12, chunk_index = 0\<rparr>]"
    by (simp add: chunker_eval)
  from h e show ?thesis by blast
qed

section \<open>The vector store\<close>

subsection \<open>Search and the effective threshold\<close>

lemma collect_results_threshold:
  "r \<in> set (collect_results chunks eff matches) \<Longrightarrow> eff \<le> similarity r"
  by (induction chunks eff matches rule: collect_results.induct)
     (auto simp: Let_def split: if_splits option.splits)

lemma collect_results_complete:
  "(key, distance) \<in> set matches \<Longrightarrow> eff \<le> 1 - distance \<Longrightarrow> map_of chunks key = Some c \<Longrightarrow>
   \<lparr>sr_id = dc_id c, chunk_id = dc_id c, sr_text = dc_text c, score = 1 - distance,
     similarity = 1 - distance, sr_metadata = dc_metadata c\<rparr> \<in> set (collect_results chunks eff matches)"
  by (induction chunks eff matches rule: collect_results.induct)
     (auto simp: Let_def split: if_splits option.splits)


text \<open>
  Claim C1: \<^verbatim>\<open>search\<close> filters against the effective threshold \<open>min t 0.15\<close>. Every
  returned result has a similarity of at least \<open>min t 0.15\<close>; and a match the index
  returned whose similarity is at least \<open>min t 0.15\<close> and whose key has a chunk is returned,
  whatever the requested \<open>t\<close> is.
\<close>

theorem search_effective_threshold:
  "(\<forall>r \<in> set (search L st q k t). min t (15 / 100) \<le> similarity r) \<and>
   (length q = dimension (vs_config st) \<longrightarrow> vs_index st \<noteq> [] \<longrightarrow>
    search_matches L (vs_index st) q k = Inr matches \<longrightarrow>
    (key, distance) \<in> set matches \<longrightarrow> min t (15 / 100) \<le> 1 - distance \<longrightarrow>
    map_of (vs_chunks st) key = Some c \<longrightarrow>
    \<lparr>sr_id = dc_id c, chunk_id = dc_id c, sr_text = dc_text c, score = 1 - distance,
      similarity = 1 - distance, sr_metadata = dc_metadata c\<rparr> \<in> set (search L st q k t))"
proof (intro conjI ballI impI)
  fix r assume "r \<in> set (search L st q k t)"
  then show "min t (15 / 100) \<le> similarity r"
    by (auto simp: search_def impl_search_def split: if_splits sum.splits
        dest: collect_results_threshold)
next
  assume "length q = dimension (vs_config st)" "vs_index st \<noteq> []"
    "search_matches L (vs_index st) q k = Inr matches" "(key, distance) \<in> set matches"
    "min t (15 / 100) \<le> 1 - distance" "map_of (vs_chunks st) key = Some c"
  then show "\<lparr>sr_id = dc_id c, chunk_id = dc_id c, sr_text = dc_text c, score = 1 - distance,
      similarity = 1 - distance, sr_metadata = dc_metadata c\<rparr> \<in> set (search L st q k t)"
    by (simp add: search_def impl_search_def collect_results_complete)
qed

text \<open>The example of the claim: similarity \<open>0.2\<close>, requested threshold \<open>0.9\<close>.\<close>

lemma store_a_eq:
  "store_a = \<lparr>vs_config = config3, vs_index = [(0, vec [1, 0, 0])], vs_chunks = [(0, chunk_a)],
              vs_id_to_key = [(''a'', 0)], vs_next_key = 1\<rparr>"
  by (simp add: store_a_def add_chunk_def new_VectorStoreUSearch_def lib_w_def chunk_a_def
      config3_def default_VectorStoreConfig_def size_t_wrap_def vec_def)

theorem search_effective_threshold_witness:
  "search lib_w store_a (vec [1, 0, 0]) 3 (9 / 10) =
     [\<lparr>sr_id = ''a'', chunk_id = ''a'', sr_text = ''alpha'', score = 1 / 5, similarity = 1 / 5,
       sr_metadata = JNull\<rparr>] \<and>
   min (9 / 10) (15 / 100) \<le> (1 / 5 :: real) \<and> (1 / 5 :: real) < 9 / 10"
  using search_effective_threshold[of lib_w store_a "vec [1, 0, 0]" 3 "9 / 10" "[(0, 4 / 5)]" 0 "4 / 5" chunk_a]
  by (simp add: store_a_eq search_def impl_search_def lib_w_def config3_def chunk_a_def Let_def
      default_VectorStoreConfig_def vec_def)

subsection \<open>Keys\<close>

lemma consistent_new: "keys_consistent (new_VectorStoreUSearch config)"
  by (simp add: keys_consistent_def new_VectorStoreUSearch_def live_keys_def)






lemma add_chunks_loop_step:
  "add_chunks_loop L (c # rest) any_added st =
     add_chunks_loop L rest (any_added \<or> fst (add_chunk L c st)) (snd (add_chunk L c st))"
  by (simp add: add_chunk_def Let_def)


















subsection \<open>The dimension of stored embeddings\<close>

lemma set_update_subset: "set (AList.update k v al) \<subseteq> insert (k, v) (set al)"
  by (induction al) auto

lemma set_delete_subset: "set (AList.delete k al) \<subseteq> set al"
  by (auto simp: AList.delete_eq)

lemma dims_ok_add_chunk: "dims_ok st \<Longrightarrow> dims_ok (snd (add_chunk L c st))"
  using set_update_subset[of "vs_next_key st" c "vs_chunks st"]
  by (auto simp: dims_ok_def add_chunk_def Let_def)

lemma dims_ok_add_chunks_loop: "dims_ok st \<Longrightarrow> dims_ok (snd (add_chunks_loop L cs a st))"
proof (induction cs arbitrary: a st)
  case Nil
  then show ?case by simp
next
  case (Cons c cs)
  show ?case unfolding add_chunks_loop_step
    by (rule Cons.IH) (rule dims_ok_add_chunk[OF Cons.prems])
qed

lemma dims_ok_remove_chunk: "dims_ok st \<Longrightarrow> dims_ok (snd (remove_chunk L cid st))"
  using set_delete_subset[of _ "vs_chunks st"]
  by (auto simp: dims_ok_def remove_chunk_def split: option.splits)

lemma dims_ok_apply_op: "dims_ok st \<Longrightarrow> dims_ok (apply_op L st op)"
  by (cases op)
     (simp_all add: dims_ok_add_chunk dims_ok_remove_chunk add_chunks_batch_def
        dims_ok_add_chunks_loop, simp add: dims_ok_def clear_def)

lemma dims_ok_run_ops: "dims_ok st \<Longrightarrow> dims_ok (run_ops L ops st)"
  unfolding run_ops_def
  by (induction ops arbitrary: st) (simp_all add: dims_ok_apply_op)

text \<open>
  The part of the dimension invariant that holds: \<^verbatim>\<open>add_chunk\<close> and \<^verbatim>\<open>add_chunks_batch\<close>
  leave the store as it is for a chunk of another dimension, \<^verbatim>\<open>search\<close> returns nothing for
  a query of another dimension, and every state reached from a new store by
  \<^verbatim>\<open>add_chunk\<close>, \<^verbatim>\<open>add_chunks_batch\<close>, \<^verbatim>\<open>remove_chunk\<close> and \<^verbatim>\<open>clear\<close> holds only embeddings
  of the configured dimension.
\<close>

theorem dimension_gate:
  "(length (embedding c) \<noteq> dimension (vs_config st) \<longrightarrow>
      add_chunk L c st = (False, st) \<and>
      add_chunks_loop L (c # rest) any_added st = add_chunks_loop L rest any_added st) \<and>
   (length q \<noteq> dimension (vs_config st) \<longrightarrow> search L st q k t = []) \<and>
   dims_ok (run_ops L ops (new_VectorStoreUSearch config))"
proof -
  have "dims_ok (new_VectorStoreUSearch config)"
    by (simp add: dims_ok_def new_VectorStoreUSearch_def)
  then have "dims_ok (run_ops L ops (new_VectorStoreUSearch config))"
    by (rule dims_ok_run_ops)
  then show ?thesis
    by (simp add: add_chunk_def search_def impl_search_def)
qed

theorem dimension_gate_witness:
  "length (embedding chunk_short) \<noteq> dimension (vs_config store_a) \<and>
   add_chunk lib_w chunk_short store_a = (False, store_a) \<and>
   add_chunks_batch lib_w [chunk_short, chunk_b] store_a = add_chunks_batch lib_w [chunk_b] store_a \<and>
   search lib_w store_a (vec [1, 0]) 3 0 = [] \<and>
   dims_ok store_ab"
proof -
  have d: "length (embedding chunk_short) \<noteq> dimension (vs_config store_a)"
    "length (vec [1, 0]) \<noteq> dimension (vs_config store_a)"
    by (simp_all add: chunk_short_def store_a_eq config3_def vec_def)
  from dimension_gate[of chunk_short store_a lib_w "[chunk_b]" False "vec [1, 0]" 3 0
      "[Add_chunk chunk_a, Add_chunk chunk_b]" config3] d
  show ?thesis by (simp add: add_chunks_batch_def store_ab_def)
qed

text \<open>A chunk whose id is already present is rejected and the store is unchanged.\<close>

theorem duplicate_id_rejected:
  "map_of (vs_id_to_key st) (dc_id c) \<noteq> None \<longrightarrow>
     add_chunk L c st = (False, st) \<and>
     add_chunks_loop L (c # rest) any_added st = add_chunks_loop L rest any_added st"
  by (simp add: add_chunk_def)

theorem duplicate_id_rejected_witness:
  "map_of (vs_id_to_key store_a) (dc_id chunk_a) \<noteq> None \<and>
   add_chunk lib_w chunk_a store_a = (False, store_a)"
proof -
  have d: "map_of (vs_id_to_key store_a) (dc_id chunk_a) \<noteq> None"
    by (simp add: store_a_eq chunk_a_def)
  from duplicate_id_rejected[of store_a chunk_a lib_w "[]" False] d show ?thesis by simp
qed

lemma store_short_eq:
  "store_short = \<lparr>vs_config = config2, vs_index = [(0, vec [1, 0])], vs_chunks = [(0, chunk_short)],
      vs_id_to_key = [(''s'', 0)], vs_next_key = 1\<rparr>"
  by (simp add: store_short_def add_chunk_def new_VectorStoreUSearch_def lib_w_def
      chunk_short_def config2_def default_VectorStoreConfig_def Let_def size_t_wrap_def vec_def)

lemma fs_short_files:
  "index_files fs_short ''store.idx'' = Some [(0, vec [1, 0])] \<and>
   json_files fs_short ''store.idx.metadata.json'' =
     Some (Json_text (JObject [(''next_key'', JNum 1),
        (''chunks'', JArray [JObject [(''key'', JNum 0), (''id'', JString ''s''),
            (''text'', JString ''short''),
            (''embedding'', JArray [JFloat (Finite 1), JFloat (Finite 0)]),
            (''metadata'', JNull)]])]))"
  by (simp add: fs_short_def save_def store_short_eq lib_w_def fs_empty_def Let_def
      chunk_to_json_def chunk_short_def vec_def valid_utf8_def continuation_byte_def)

text \<open>
  Claim C3: every chunk held by the store has an embedding of the configured dimension;
  \<^verbatim>\<open>add_chunk\<close> and \<^verbatim>\<open>add_chunks_batch\<close> reject any other chunk, and every operation keeps
  the invariant, \<^verbatim>\<open>load\<close> included.

  \<^verbatim>\<open>load\<close> does not keep it: it copies every embedding of the sidecar file into the store
  and never compares its length with \<^verbatim>\<open>config_.dimension\<close>. Loading what a store of
  dimension 2 saved into a store of dimension 3 succeeds and leaves a chunk whose embedding
  has length 2.
\<close>

theorem load_keeps_wrong_dimension:
  "fst (load lib_w ''store.idx'' fs_short (new_VectorStoreUSearch config3)) \<and>
   dimension (vs_config (snd (load lib_w ''store.idx'' fs_short (new_VectorStoreUSearch config3)))) = 3 \<and>
   map (\<lambda>kc. length (embedding (snd kc)))
     (vs_chunks (snd (load lib_w ''store.idx'' fs_short (new_VectorStoreUSearch config3)))) = [2]"
  by (simp add: load_def fs_short_files lib_w_def parse_metadata_def parse_chunk_def
      new_VectorStoreUSearch_def config3_def default_VectorStoreConfig_def)

subsection \<open>Saving and loading\<close>







lemma run_ops_config: "vs_config (run_ops L ops st) = vs_config st"
proof (induction ops arbitrary: st)
  case Nil
  then show ?case by (simp add: run_ops_def)
next
  case (Cons op ops)
  have loop: "vs_config (snd (add_chunks_loop L cs a s)) = vs_config s" for cs a s
    by (induction cs arbitrary: a s) (simp_all add: Let_def)
  have "vs_config (apply_op L st op) = vs_config st"
    by (cases op) (auto simp: add_chunk_def Let_def add_chunks_batch_def loop remove_chunk_def
        clear_def split: option.splits)
  with Cons[of "apply_op L st op"] show ?case by (simp add: run_ops_def)
qed




lemmas save_eval = save_def chunk_to_json_def valid_utf8_def continuation_byte_def Let_def
  fs_empty_def vec_def

lemmas load_eval = load_def parse_metadata_def parse_chunk_def new_VectorStoreUSearch_def


text \<open>
  Three more ways in which the files of a \<^verbatim>\<open>save\<close> do not give the store back. They are
  failures of \<^verbatim>\<open>save\<close> and \<^verbatim>\<open>load\<close> rather than properties of the round trip, and the
  amended claim below says nothing about these states.

  A text that is not well-formed UTF-8: \<^verbatim>\<open>dump()\<close> throws, the exception leaves \<^verbatim>\<open>save\<close>,
  the index file is written and the sidecar is empty.
\<close>

lemma save_throws_on_cut_text:
  "vs_chunks store_cut = [(0, chunk_cut)] \<and>
   fst (save lib_w ''store.idx'' store_cut fs_empty) = Inl type_error_316 \<and>
   index_files (snd (save lib_w ''store.idx'' store_cut fs_empty)) ''store.idx'' =
     Some (vs_index store_cut) \<and>
   json_files (snd (save lib_w ''store.idx'' store_cut fs_empty)) ''store.idx.metadata.json'' =
     Some Unparsable"
  by (simp add: store_cut_def add_chunk_def new_VectorStoreUSearch_def lib_w_def chunk_cut_def
      config3_def default_VectorStoreConfig_def size_t_wrap_def save_eval)

text \<open>
  An embedding with a NaN component: \<^verbatim>\<open>add_chunk\<close> accepts it, \<^verbatim>\<open>save\<close> writes
  \<^verbatim>\<open>null\<close> for it and returns true, and \<^verbatim>\<open>load\<close> returns false with the index replaced and
  no chunk.
\<close>

lemma nan_embedding_not_loaded:
  "vs_chunks store_nan = [(0, chunk_nan)] \<and>
   fst (save lib_w ''store.idx'' store_nan fs_empty) = Inr True \<and>
   load lib_w ''store.idx'' (snd (save lib_w ''store.idx'' store_nan fs_empty))
     (new_VectorStoreUSearch config3) =
     (False, (new_VectorStoreUSearch config3)\<lparr>vs_index := vs_index store_nan\<rparr>)"
  by (simp add: store_nan_def add_chunk_def lib_w_def chunk_nan_def
      config3_def default_VectorStoreConfig_def size_t_wrap_def save_eval load_eval)

text \<open>
  A write that does not reach the file: \<^verbatim>\<open>save\<close> returns true and \<^verbatim>\<open>load\<close> returns
  false.
\<close>

lemma lost_write_not_loaded:
  "fst (save lib_w ''store.idx'' store_a fs_full) = Inr True \<and>
   \<not> fst (load lib_w ''store.idx'' (snd (save lib_w ''store.idx'' store_a fs_full))
            (new_VectorStoreUSearch config3))"
  by (simp add: store_a_eq fs_full_def lib_w_def chunk_a_def save_eval load_eval)



section \<open>The backend\<close>

subsection \<open>Queries without context\<close>

lemma search_empty_store:
  "vs_index (rb_vector_store b) = [] \<Longrightarrow>
   search_with_provider L b q k provider d t initialized = []"
  by (simp add: search_with_provider_def search_def impl_search_def split: option.split sum.split)

text \<open>
  Claim C5: when \<^verbatim>\<open>query\<close> runs with both providers ready and the search returns no
  result (as it does on an empty store), the result has \<^verbatim>\<open>success = true\<close>, the canned
  text, and the metadata \<^verbatim>\<open>{"reason": "no_context"}\<close>.
\<close>

theorem query_no_context:
  assumes "rb_embedding_provider b = Some ep" and "ep_is_ready ep"
    and "rb_text_generator b = Some tg" and "tg_is_ready tg"
  shows "(search_with_provider L b q (top_k (rb_config b)) (Some ep)
            (embedding_dimension (rb_config b)) (similarity_threshold (rb_config b))
            (rb_initialized b) = [] \<longrightarrow>
          query L b q options =
            default_GenerationResult
              \<lparr>gr_text := no_context_text, success := True,
               gr_metadata := JObject [(''reason'', JString ''no_context'')]\<rparr>) \<and>
         (store_size (rb_vector_store b) = 0 \<longrightarrow>
          query L b q options =
            default_GenerationResult
              \<lparr>gr_text := no_context_text, success := True,
               gr_metadata := JObject [(''reason'', JString ''no_context'')]\<rparr>)"
  using assms
  by (simp add: query_def default_GenerationResult_def store_size_def search_empty_store)

theorem query_no_context_witness:
  "success (query lib_w backend_w ''what?'' options_w) \<and>
   gr_text (query lib_w backend_w ''what?'' options_w) = no_context_text \<and>
   json_at (gr_metadata (query lib_w backend_w ''what?'' options_w)) ''reason'' =
     Some (JString ''no_context'')"
proof -
  have p: "rb_embedding_provider backend_w = Some provider3" "ep_is_ready provider3"
    "rb_text_generator backend_w = Some generator_w" "tg_is_ready generator_w"
    by (simp_all add: backend_w_def new_RAGBackend_def provider3_def generator_w_def)
  have e: "store_size (rb_vector_store backend_w) = 0"
    by (simp add: backend_w_def new_RAGBackend_def new_VectorStoreUSearch_def store_size_def)
  from query_no_context[OF p, of lib_w "''what?''" options_w] e show ?thesis
    by simp
qed

text \<open>
  A missing or unready provider gives a failure result, not an exception.
\<close>

theorem query_provider_unavailable:
  "((rb_embedding_provider b = None \<or>
     (\<exists>ep. rb_embedding_provider b = Some ep \<and> \<not> ep_is_ready ep)) \<longrightarrow>
      query L b q options = error_result ''Error: Embedding provider not available'') \<and>
   ((\<exists>ep. rb_embedding_provider b = Some ep \<and> ep_is_ready ep) \<and>
    (rb_text_generator b = None \<or>
     (\<exists>tg. rb_text_generator b = Some tg \<and> \<not> tg_is_ready tg)) \<longrightarrow>
      query L b q options = error_result ''Error: Text generator not available'') \<and>
   \<not> success (error_result msg)"
  by (auto simp: query_def error_result_def default_GenerationResult_def)

theorem query_provider_unavailable_witness:
  "rb_embedding_provider backend_default = None \<and>
   query lib_w backend_default ''what?'' options_w =
     error_result ''Error: Embedding provider not available'' \<and>
   \<not> success (query lib_w backend_default ''what?'' options_w)"
proof -
  have n: "rb_embedding_provider backend_default = None"
    by (simp add: backend_default_def new_RAGBackend_def)
  from query_provider_unavailable[of backend_default lib_w "''what?''" options_w
      "''Error: Embedding provider not available''"] n
  show ?thesis by simp
qed

subsection \<open>Replacing the embedding provider\<close>

text \<open>
  Claim C8, as stated: \<^verbatim>\<open>set_embedding_provider\<close> leaves every field of the configuration
  unchanged. It does not: a ready provider of dimension 768 changes
  \<^verbatim>\<open>embedding_dimension\<close> from 384 to 768.
\<close>

theorem set_embedding_provider_changes_dimension:
  "rb_config (set_embedding_provider (Some provider768) backend_default) \<noteq> rb_config backend_default"
  by (simp add: set_embedding_provider_def backend_default_def new_RAGBackend_def provider768_def
      default_RAGBackendConfig_def)

text \<open>
  Claim C8, amended: \<^verbatim>\<open>set_embedding_provider\<close> replaces the provider handle and, when the
  new provider is present and ready, sets \<^verbatim>\<open>embedding_dimension\<close> to the provider's
  dimension; every other field of the configuration, the vector store (its dimension
  included), the chunker, the text generator and the counters are unchanged.
\<close>

theorem set_embedding_provider_frame:
  "rb_embedding_provider (set_embedding_provider provider b) = provider \<and>
   embedding_dimension (rb_config (set_embedding_provider provider b)) =
     (case provider of
        None \<Rightarrow> embedding_dimension (rb_config b)
      | Some p \<Rightarrow> if ep_is_ready p then ep_dimension p else embedding_dimension (rb_config b)) \<and>
   top_k (rb_config (set_embedding_provider provider b)) = top_k (rb_config b) \<and>
   similarity_threshold (rb_config (set_embedding_provider provider b)) =
     similarity_threshold (rb_config b) \<and>
   max_context_tokens (rb_config (set_embedding_provider provider b)) =
     max_context_tokens (rb_config b) \<and>
   rag_chunk_size (rb_config (set_embedding_provider provider b)) = rag_chunk_size (rb_config b) \<and>
   rag_chunk_overlap (rb_config (set_embedding_provider provider b)) =
     rag_chunk_overlap (rb_config b) \<and>
   prompt_template (rb_config (set_embedding_provider provider b)) =
     prompt_template (rb_config b) \<and>
   rb_vector_store (set_embedding_provider provider b) = rb_vector_store b \<and>
   rb_chunker (set_embedding_provider provider b) = rb_chunker b \<and>
   rb_text_generator (set_embedding_provider provider b) = rb_text_generator b \<and>
   rb_initialized (set_embedding_provider provider b) = rb_initialized b \<and>
   rb_next_chunk_id (set_embedding_provider provider b) = rb_next_chunk_id b"
  by (simp add: set_embedding_provider_def Let_def split: option.split)

subsection \<open>Clearing the backend\<close>

text \<open>\<^verbatim>\<open>RAGBackend::clear\<close> empties the store and sets both counters to zero.\<close>

theorem rag_clear_resets:
  "store_size (rb_vector_store (rag_clear b)) = 0 \<and>
   vs_chunks (rb_vector_store (rag_clear b)) = [] \<and>
   vs_id_to_key (rb_vector_store (rag_clear b)) = [] \<and>
   vs_next_key (rb_vector_store (rag_clear b)) = 0 \<and>
   rb_next_chunk_id (rag_clear b) = 0 \<and>
   rb_config (rag_clear b) = rb_config b"
  by (simp add: rag_clear_def clear_def store_size_def)

subsection \<open>Adding a document\<close>

lemmas backend_eval = new_RAGBackend_def config_small_def
  default_RAGBackendConfig_def default_VectorStoreConfig_def new_VectorStoreUSearch_def
  add_chunk_def lib_w_def Let_def to_string.simps digit_char_def substr_def
  piece0_def piece1_def piece2_def size_t_wrap_def vec_def

lemma chunker_small: "rb_chunker (new_RAGBackend config_small p g) = \<lparr>chunk_size = 2, chunk_overlap = 0, chars_per_token = 4\<rparr>"
  by (simp add: new_RAGBackend_def config_small_def default_ChunkerConfig_def)

lemma doc_w_chunks:
  "chunk_document \<lparr>chunk_size = 2, chunk_overlap = 0, chars_per_token = 4\<rparr> doc_w =
     Some [piece0, piece1, piece2]"
  by (simp add: doc_w_def piece0_def piece1_def piece2_def chunker_eval)

lemma loop_config [simp]:
  "rb_config (snd (add_document_loop L p s md chunks b)) = rb_config b"
  by (induction L p s md chunks b rule: add_document_loop.induct)
     (auto simp: Let_def split: sum.splits option.splits)

lemma loop_skip:
  "chunk_skipped p b c \<Longrightarrow>
   add_document_loop L p s md (c # rest) b = add_document_loop L p s md rest b"
  by (auto simp: chunk_skipped_def split: sum.splits)

lemma loop_fail:
  "chunk_fails L p s md c b \<Longrightarrow> \<not> fst (add_document_loop L p s md (c # rest) b)"
  by (auto simp: chunk_fails_def Let_def split: sum.splits option.splits)

lemma loop_fail_store:
  "chunk_fails L p s md c b \<Longrightarrow>
   vs_index (rb_vector_store (snd (add_document_loop L p s md (c # rest) b))) =
     vs_index (rb_vector_store b) \<and>
   vs_chunks (rb_vector_store (snd (add_document_loop L p s md (c # rest) b))) =
     vs_chunks (rb_vector_store b) \<and>
   vs_id_to_key (rb_vector_store (snd (add_document_loop L p s md (c # rest) b))) =
     vs_id_to_key (rb_vector_store b)"
  by (auto simp: chunk_fails_def Let_def add_chunk_def split: sum.splits option.splits if_splits)

lemma loop_append:
  "add_document_loop L p s md (pre @ rest) b =
     (if fst (add_document_loop L p s md pre b)
      then add_document_loop L p s md rest (snd (add_document_loop L p s md pre b))
      else add_document_loop L p s md pre b)"
  by (induction L p s md pre b rule: add_document_loop.induct)
     (auto simp: Let_def split: sum.splits option.splits)

lemma loop_false_split:
  "\<not> fst (add_document_loop L p s md chunks b) \<Longrightarrow>
   \<exists>pre c post. chunks = pre @ c # post \<and> fst (add_document_loop L p s md pre b) \<and>
      chunk_fails L p s md c (snd (add_document_loop L p s md pre b))"
proof (induction chunks arbitrary: b)
  case Nil
  then show ?case by simp
next
  case (Cons chunk_obj rest)
  show ?case
  proof (cases "chunk_fails L p s md chunk_obj b")
    case True
    then have "chunk_obj # rest = [] @ chunk_obj # rest \<and> fst (add_document_loop L p s md [] b) \<and>
      chunk_fails L p s md chunk_obj (snd (add_document_loop L p s md [] b))"
      by simp
    then show ?thesis by blast
  next
    case False
    define b' where "b' = snd (add_document_loop L p s md [chunk_obj] b)"
    have one: "fst (add_document_loop L p s md [chunk_obj] b)"
      using False by (auto simp: chunk_fails_def Let_def split: sum.splits option.splits)
    have step: "add_document_loop L p s md (chunk_obj # xs) b = add_document_loop L p s md xs b'" for xs
      using loop_append[of L p s md "[chunk_obj]" xs b] one by (simp add: b'_def)
    from Cons.prems step have "\<not> fst (add_document_loop L p s md rest b')" by simp
    from Cons.IH[OF this] obtain pre c post where r: "rest = pre @ c # post"
      "fst (add_document_loop L p s md pre b')"
      "chunk_fails L p s md c (snd (add_document_loop L p s md pre b'))" by blast
    with step have "chunk_obj # rest = (chunk_obj # pre) @ c # post \<and>
        fst (add_document_loop L p s md (chunk_obj # pre) b) \<and>
        chunk_fails L p s md c (snd (add_document_loop L p s md (chunk_obj # pre) b))"
      by simp
    then show ?thesis by blast
  qed
qed

lemma loop_false_iff:
  "\<not> fst (add_document_loop L p s md chunks b) \<longleftrightarrow>
   (\<exists>pre c post. chunks = pre @ c # post \<and> fst (add_document_loop L p s md pre b) \<and>
      chunk_fails L p s md c (snd (add_document_loop L p s md pre b)))"
proof
  assume "\<not> fst (add_document_loop L p s md chunks b)"
  then show "\<exists>pre c post. chunks = pre @ c # post \<and> fst (add_document_loop L p s md pre b) \<and>
      chunk_fails L p s md c (snd (add_document_loop L p s md pre b))"
    by (rule loop_false_split)
next
  assume "\<exists>pre c post. chunks = pre @ c # post \<and> fst (add_document_loop L p s md pre b) \<and>
      chunk_fails L p s md c (snd (add_document_loop L p s md pre b))"
  then obtain pre c post where r: "chunks = pre @ c # post" "fst (add_document_loop L p s md pre b)"
      "chunk_fails L p s md c (snd (add_document_loop L p s md pre b))" by blast
  show "\<not> fst (add_document_loop L p s md chunks b)"
    unfolding r(1) loop_append[of L p s md pre "c # post" b] using r(2) loop_fail[OF r(3)] by simp
qed

lemma loop_skip_all:
  "add_document_loop L p s md chunks b =
   add_document_loop L p s md (filter (\<lambda>c. \<not> chunk_skipped p b c) chunks) b"
proof (induction chunks arbitrary: b)
  case Nil
  then show ?case by simp
next
  case (Cons c rest)
  show ?case
  proof (cases "chunk_skipped p b c")
    case True
    then show ?thesis using Cons[of b] by (simp del: add_document_loop.simps add: loop_skip)
  next
    case False
    have same: "chunk_skipped p (snd (add_document_loop L p s md [c] b)) = chunk_skipped p b"
      unfolding chunk_skipped_def loop_config ..
    define b' where "b' = snd (add_document_loop L p s md [c] b)"
    have fl: "filter (\<lambda>c. \<not> chunk_skipped p b c) (c # rest) =
              c # filter (\<lambda>c. \<not> chunk_skipped p b c) rest"
      using False by simp
    show ?thesis
    proof (cases "fst (add_document_loop L p s md [c] b)")
      case True
      have step: "add_document_loop L p s md (c # xs) b = add_document_loop L p s md xs b'" for xs
        using loop_append[of L p s md "[c]" xs b] True by (simp add: b'_def)
      have "add_document_loop L p s md (c # rest) b = add_document_loop L p s md rest b'"
        by (rule step)
      also have "\<dots> = add_document_loop L p s md (filter (\<lambda>c. \<not> chunk_skipped p b' c) rest) b'"
        by (rule Cons)
      also have "\<dots> = add_document_loop L p s md (filter (\<lambda>c. \<not> chunk_skipped p b c) rest) b'"
        unfolding b'_def same ..
      also have "\<dots> = add_document_loop L p s md (c # filter (\<lambda>c. \<not> chunk_skipped p b c) rest) b"
        by (rule step[symmetric])
      finally show ?thesis unfolding fl .
    next
      case f: False
      have stop: "add_document_loop L p s md (c # xs) b = add_document_loop L p s md [c] b" for xs
        using loop_append[of L p s md "[c]" xs b] f by simp
      show ?thesis unfolding fl stop[of rest] stop[of "filter (\<lambda>c. \<not> chunk_skipped p b c) rest"] ..
    qed
  qed
qed

text \<open>
  Claim C6, as stated: \<^verbatim>\<open>add_document\<close> returns false only when the backend is not
  initialized or the embedding provider is missing or not ready. It also returns false when
  the backend is initialized and the provider is ready, and the provider throws.
\<close>

theorem add_document_false_with_ready_provider:
  "rb_initialized backend_throwing \<and>
   rb_embedding_provider backend_throwing = Some provider_throwing \<and>
   ep_is_ready provider_throwing \<and>
   add_document lib_w doc_w JNull backend_throwing = Some (False, backend_throwing)"
  unfolding add_document_def backend_throwing_def chunker_small doc_w_chunks
  by (simp add: new_RAGBackend_def provider_throwing_def)

text \<open>
  Claim C6, amended: \<^verbatim>\<open>add_document\<close> returns false only when the backend is not
  initialized, the embedding provider is missing or not ready, or a chunk fails after all
  chunks before it went through: its embedding call throws, the assignment of
  \<^verbatim>\<open>source_text\<close> to the metadata throws, or the vector store rejects the insertion. A
  chunk whose embedding has a length other than the configured dimension is skipped: the
  loop goes on with the remaining chunks in the same state, the result is the one of the
  document without the skipped chunks, and a document whose chunks are all skipped returns
  true.
\<close>

theorem add_document_result:
  "(add_document L s md b = Some (False, b') \<longrightarrow>
      \<not> rb_initialized b \<or> rb_embedding_provider b = None \<or>
      (\<exists>p. rb_embedding_provider b = Some p \<and> \<not> ep_is_ready p) \<or>
      (\<exists>p chunks pre c post.
          rb_embedding_provider b = Some p \<and> chunk_document (rb_chunker b) s = Some chunks \<and>
          chunks = pre @ c # post \<and> fst (add_document_loop L p s md pre b) \<and>
          chunk_fails L p s md c (snd (add_document_loop L p s md pre b)))) \<and>
   (chunk_skipped p b c \<longrightarrow>
      add_document_loop L p s md (c # rest) b = add_document_loop L p s md rest b) \<and>
   add_document_loop L p s md chunks b =
     add_document_loop L p s md (filter (\<lambda>c. \<not> chunk_skipped p b c) chunks) b \<and>
   (rb_initialized b \<and> rb_embedding_provider b = Some p \<and> ep_is_ready p \<and>
    chunk_document (rb_chunker b) s = Some chunks \<and> (\<forall>c \<in> set chunks. chunk_skipped p b c) \<longrightarrow>
      add_document L s md b = Some (True, b))"
proof (intro conjI impI)
  assume a: "add_document L s md b = Some (False, b')"
  show "\<not> rb_initialized b \<or> rb_embedding_provider b = None \<or>
      (\<exists>p. rb_embedding_provider b = Some p \<and> \<not> ep_is_ready p) \<or>
      (\<exists>p chunks pre c post.
          rb_embedding_provider b = Some p \<and> chunk_document (rb_chunker b) s = Some chunks \<and>
          chunks = pre @ c # post \<and> fst (add_document_loop L p s md pre b) \<and>
          chunk_fails L p s md c (snd (add_document_loop L p s md pre b)))"
  proof (cases "rb_initialized b \<and> (\<exists>p. rb_embedding_provider b = Some p \<and> ep_is_ready p)")
    case False
    then show ?thesis by (cases "rb_embedding_provider b") auto
  next
    case True
    then obtain p where p: "rb_initialized b" "rb_embedding_provider b = Some p" "ep_is_ready p"
      by blast
    with a obtain chunks where c: "chunk_document (rb_chunker b) s = Some chunks"
      "add_document_loop L p s md chunks b = (False, b')"
      by (auto simp: add_document_def split: option.splits)
    then have "\<not> fst (add_document_loop L p s md chunks b)" by simp
    from loop_false_split[OF this] p(2) c(1) show ?thesis by blast
  qed
next
  assume "chunk_skipped p b c"
  then show "add_document_loop L p s md (c # rest) b = add_document_loop L p s md rest b"
    by (rule loop_skip)
next
  show "add_document_loop L p s md chunks b =
     add_document_loop L p s md (filter (\<lambda>c. \<not> chunk_skipped p b c) chunks) b"
    by (rule loop_skip_all)
next
  assume a: "rb_initialized b \<and> rb_embedding_provider b = Some p \<and> ep_is_ready p \<and>
    chunk_document (rb_chunker b) s = Some chunks \<and> (\<forall>c \<in> set chunks. chunk_skipped p b c)"
  then have "filter (\<lambda>c. \<not> chunk_skipped p b c) chunks = []" by simp
  then have "add_document_loop L p s md chunks b = (True, b)"
    using loop_skip_all[of L p s md chunks b] by simp
  with a show "add_document L s md b = Some (True, b)"
    by (simp add: add_document_def)
qed

theorem add_document_result_witness:
  "chunk_skipped provider_mixed backend_mixed piece1 \<and>
   add_document_loop lib_w provider_mixed doc_w JNull [piece1, piece2] backend_mixed =
     add_document_loop lib_w provider_mixed doc_w JNull [piece2] backend_mixed \<and>
   (\<exists>b'. add_document lib_w doc_w JNull backend_mixed = Some (True, b') \<and>
         map fst (vs_id_to_key (rb_vector_store b')) = [''chunk_0'', ''chunk_1''] \<and>
         map (\<lambda>kc. dc_text (snd kc)) (vs_chunks (rb_vector_store b')) = [''Aaaa bbb.'', ''Eeee fff.''])"
proof -
  have sk: "chunk_skipped provider_mixed backend_mixed piece1"
    by (simp add: chunk_skipped_def provider_mixed_def backend_mixed_def new_RAGBackend_def
        config_small_def piece1_def vec_def)
  from add_document_result[of lib_w doc_w JNull backend_mixed _ provider_mixed piece1 "[piece2]"] sk
  have step: "add_document_loop lib_w provider_mixed doc_w JNull [piece1, piece2] backend_mixed =
     add_document_loop lib_w provider_mixed doc_w JNull [piece2] backend_mixed"
    by blast
  have ev: "\<exists>b'. add_document lib_w doc_w JNull backend_mixed = Some (True, b') \<and>
         map fst (vs_id_to_key (rb_vector_store b')) = [''chunk_0'', ''chunk_1''] \<and>
         map (\<lambda>kc. dc_text (snd kc)) (vs_chunks (rb_vector_store b')) = [''Aaaa bbb.'', ''Eeee fff.'']"
    unfolding add_document_def backend_mixed_def chunker_small doc_w_chunks
    by (simp add: backend_eval provider_mixed_def)
  from sk step ev show ?thesis by blast
qed

text \<open>
  Claim C10: \<^verbatim>\<open>add_document\<close> does not roll back. When a chunk fails after the chunks
  before it went through, the call returns false and the index and both maps of the store
  are the ones reached after those earlier chunks; and there is an input for which the
  call returns false and the size of the store has grown.
\<close>

theorem add_document_not_atomic:
  "(fst (add_document_loop L p s md pre b) \<and>
    chunk_fails L p s md c (snd (add_document_loop L p s md pre b)) \<longrightarrow>
      \<not> fst (add_document_loop L p s md (pre @ c # post) b) \<and>
      vs_index (rb_vector_store (snd (add_document_loop L p s md (pre @ c # post) b))) =
        vs_index (rb_vector_store (snd (add_document_loop L p s md pre b))) \<and>
      vs_chunks (rb_vector_store (snd (add_document_loop L p s md (pre @ c # post) b))) =
        vs_chunks (rb_vector_store (snd (add_document_loop L p s md pre b))) \<and>
      vs_id_to_key (rb_vector_store (snd (add_document_loop L p s md (pre @ c # post) b))) =
        vs_id_to_key (rb_vector_store (snd (add_document_loop L p s md pre b)))) \<and>
   (\<exists>b'. add_document lib_w doc_w JNull backend_partial = Some (False, b') \<and>
         store_size (rb_vector_store backend_partial) < store_size (rb_vector_store b'))"
proof (intro conjI impI)
  assume a: "fst (add_document_loop L p s md pre b) \<and>
    chunk_fails L p s md c (snd (add_document_loop L p s md pre b))"
  then have e: "add_document_loop L p s md (pre @ c # post) b =
      add_document_loop L p s md (c # post) (snd (add_document_loop L p s md pre b))"
    using loop_append[of L p s md pre "c # post" b] by simp
  from a show "\<not> fst (add_document_loop L p s md (pre @ c # post) b)"
    unfolding e by (simp only: loop_fail not_False_eq_True)
  from a show "vs_index (rb_vector_store (snd (add_document_loop L p s md (pre @ c # post) b))) =
        vs_index (rb_vector_store (snd (add_document_loop L p s md pre b)))"
    unfolding e using loop_fail_store by blast
  from a show "vs_chunks (rb_vector_store (snd (add_document_loop L p s md (pre @ c # post) b))) =
        vs_chunks (rb_vector_store (snd (add_document_loop L p s md pre b)))"
    unfolding e using loop_fail_store by blast
  from a show "vs_id_to_key (rb_vector_store (snd (add_document_loop L p s md (pre @ c # post) b))) =
        vs_id_to_key (rb_vector_store (snd (add_document_loop L p s md pre b)))"
    unfolding e using loop_fail_store by blast
next
  show "\<exists>b'. add_document lib_w doc_w JNull backend_partial = Some (False, b') \<and>
         store_size (rb_vector_store backend_partial) < store_size (rb_vector_store b')"
    unfolding add_document_def backend_partial_def chunker_small doc_w_chunks
    by (simp add: provider_partial_def backend_eval store_size_def)
qed

theorem add_document_not_atomic_witness:
  "fst (add_document_loop lib_w provider_partial doc_w JNull [piece0] backend_partial) \<and>
   chunk_fails lib_w provider_partial doc_w JNull piece1
     (snd (add_document_loop lib_w provider_partial doc_w JNull [piece0] backend_partial)) \<and>
   \<not> fst (add_document_loop lib_w provider_partial doc_w JNull [piece0, piece1, piece2]
          backend_partial) \<and>
   vs_index (rb_vector_store (snd (add_document_loop lib_w provider_partial doc_w JNull
          [piece0, piece1, piece2] backend_partial))) = [(0, vec [1, 0, 0])]"
proof -
  have pre: "fst (add_document_loop lib_w provider_partial doc_w JNull [piece0] backend_partial)"
    by (simp add: backend_partial_def provider_partial_def backend_eval)
  have idx: "vs_index (rb_vector_store (snd (add_document_loop lib_w provider_partial doc_w JNull
          [piece0] backend_partial))) = [(0, vec [1, 0, 0])]"
    by (simp add: backend_partial_def provider_partial_def backend_eval)
  have fails: "chunk_fails lib_w provider_partial doc_w JNull piece1 b" for b
    by (simp add: chunk_fails_def provider_partial_def piece1_def)
  from add_document_not_atomic[of lib_w provider_partial doc_w JNull "[piece0]"
      backend_partial piece1 "[piece2]"] pre fails idx
  show ?thesis by simp
qed

end
